theory Spec2Isabelle
  imports Complex_Main "HOL-Library.Word"
begin

unbundle bit_operations_syntax

section \<open>Machine integers and errors\<close>

text \<open>
  The driver is written in Go. Its \<^verbatim>\<open>uint8\<close>, \<^verbatim>\<open>uint16\<close> and \<^verbatim>\<open>uint32\<close> values are
  words of that width: addition, subtraction and multiplication wrap around, a shift by
  the width or more gives 0, and division truncates. A Go \<^verbatim>\<open>error\<close> built by
  \<^verbatim>\<open>fmt.Errorf\<close> is a constructor of \<open>error\<close>, one per message; a failure reported
  by the I2C transport is \<open>TransportError\<close>; the run-time panic of an integer division
  by zero is \<open>DivideByZero\<close> (nothing in the driver recovers from a panic, so it
  reaches the caller like an error, with the state as mutated so far).
\<close>

type_synonym u8 = "8 word"
type_synonym u16 = "16 word"
type_synonym u32 = "32 word"

datatype error =
    TransportError
  | InsufficientData
  | TimingBudgetTooLow
  | TimingBudgetTooHigh
  | UnrecognizedDistanceMode
  | ROITooSmall
  | DataTimeout
  | DivideByZero

section \<open>The I2C transport and the device behind it\<close>

text \<open>
  The transport (package go-i2c) is outside the repository. The driver uses two calls of
  it, \<^verbatim>\<open>WriteBytes\<close> and \<^verbatim>\<open>ReadBytes\<close>. The model of the device is a register
  file addressed by 16-bit indices: a write of \<open>[hi, lo] @ data\<close> sets the device's
  register index to \<open>hi:lo\<close> and stores the data bytes from there on; a read returns the
  bytes from the current index on. Each call first consumes one step of \<open>script\<close>,
  the environment's schedule: the register changes the hardware makes by itself before
  the call (status bits, fresh results) and the outcome of the transfer. An exhausted
  script means a stable register file and a transport that works. \<open>trace\<close> records
  the completed transfers, oldest first.
\<close>

datatype fault = NoFault | BusError | ShortCount

datatype xfer = Wr "u8 list" | Rd "u8 list"

record i2c =
  regs :: "u16 \<Rightarrow> u8"
  index :: u16
  script :: "((u16 \<times> u8) list \<times> fault) list"
  trace :: "xfer list"

definition poke :: "(u16 \<times> u8) list \<Rightarrow> (u16 \<Rightarrow> u8) \<Rightarrow> (u16 \<Rightarrow> u8)" where
  "poke ps r = fold (\<lambda>(a, x) f. f(a := x)) ps r"

definition env_step :: "i2c \<Rightarrow> fault \<times> i2c" where
  "env_step b =
     (case script b of
        [] \<Rightarrow> (NoFault, b)
      | (ps, f) # rest \<Rightarrow> (f, b\<lparr>regs := poke ps (regs b), script := rest\<rparr>))"

definition addr16 :: "u8 \<Rightarrow> u8 \<Rightarrow> u16" where
  "addr16 hi lo = push_bit 8 (ucast hi) OR ucast lo"

fun store :: "u16 \<Rightarrow> u8 list \<Rightarrow> (u16 \<Rightarrow> u8) \<Rightarrow> (u16 \<Rightarrow> u8)" where
  "store a [] r = r"
| "store a (x # xs) r = store (a + 1) xs (r(a := x))"

fun fetch :: "u16 \<Rightarrow> nat \<Rightarrow> (u16 \<Rightarrow> u8) \<Rightarrow> u8 list" where
  "fetch a 0 r = []"
| "fetch a (Suc n) r = r a # fetch (a + 1) n r"

definition device_write :: "u8 list \<Rightarrow> i2c \<Rightarrow> i2c" where
  "device_write bs b =
     (case bs of
        hi # lo # data \<Rightarrow>
          b\<lparr>regs := store (addr16 hi lo) data (regs b),
            index := addr16 hi lo + of_nat (length data),
            trace := trace b @ [Wr bs]\<rparr>
      | _ \<Rightarrow> b\<lparr>trace := trace b @ [Wr bs]\<rparr>)"

definition WriteBytes :: "u8 list \<Rightarrow> i2c \<Rightarrow> (error + unit) \<times> i2c" where
  "WriteBytes bs b =
     (case env_step b of
        (BusError, b1) \<Rightarrow> (Inl TransportError, b1)
      | (_, b1) \<Rightarrow> (Inr (), device_write bs b1))"

text \<open>
  \<open>ReadBytes n\<close> returns the bytes delivered; their number is the count the Go call
  returns. \<open>ShortCount\<close> is a transfer that reports no error and delivers fewer bytes
  than asked for (here: none).
\<close>

definition ReadBytes :: "nat \<Rightarrow> i2c \<Rightarrow> (error + u8 list) \<times> i2c" where
  "ReadBytes n b =
     (case env_step b of
        (BusError, b1) \<Rightarrow> (Inl TransportError, b1)
      | (ShortCount, b1) \<Rightarrow> (Inr [], b1)
      | (NoFault, b1) \<Rightarrow>
          (Inr (fetch (index b1) n (regs b1)),
           b1\<lparr>index := index b1 + of_nat n,
              trace := trace b1 @ [Rd (fetch (index b1) n (regs b1))]\<rparr>))"

section \<open>The driver instance\<close>

text \<open>vl53l1x.go: the constants, the result buffer and the driver struct.\<close>

abbreviation TimingGuard :: u32 where "TimingGuard \<equiv> 4528"
abbreviation TargetRate :: u16 where "TargetRate \<equiv> 0x0A00"

record resultBuffer =
  rangeStatus :: u8
  streamCount :: u8
  dssActualEffectiveSpadsSD0 :: u16
  ambientCountRateMCPS_SD0 :: u16
  finalCrosstalkCorrectedRangeMM_SD0 :: u16
  peakSignalCountRateCrosstalkCorrectedMCPS_SD0 :: u16

text \<open>
  \<open>DistanceMode\<close> is a Go \<^verbatim>\<open>int\<close> with three named values; any other integer can be
  passed. \<open>ioTimeout\<close> and the clock are in nanoseconds, as \<^verbatim>\<open>time.Duration\<close> is.
  \<open>wallClock\<close> stands for \<^verbatim>\<open>time.Now()\<close>: it belongs to the environment and is
  advanced by \<^verbatim>\<open>time.Sleep\<close> only. The logger is left out.
\<close>

type_synonym DistanceMode = int

abbreviation Short :: DistanceMode where "Short \<equiv> 0"
abbreviation Medium :: DistanceMode where "Medium \<equiv> 1"
abbreviation Long :: DistanceMode where "Long \<equiv> 2"

record VL53L1X =
  bus :: i2c
  wallClock :: int
  ioTimeout :: int
  didTimeout :: bool
  timeoutStart :: int
  fastOscFrequency :: u16
  oscCalibrateVal :: u16
  calibrated :: bool
  savedVHVInit :: u8
  savedVHVTimeout :: u8
  distanceMode :: DistanceMode
  timingBudget :: u32
  lastStatus :: u8
  results :: resultBuffer

text \<open>
  A method of the driver is a function from the state to a result and the state after
  it. An error return keeps the state as mutated up to it.
\<close>

type_synonym 'a io = "VL53L1X \<Rightarrow> (error + 'a) \<times> VL53L1X"

definition returnE :: "'a \<Rightarrow> 'a io" where
  "returnE x v = (Inr x, v)"

definition failE :: "error \<Rightarrow> 'a io" where
  "failE e v = (Inl e, v)"

definition bindE :: "'a io \<Rightarrow> ('a \<Rightarrow> 'b io) \<Rightarrow> 'b io" where
  "bindE m k v = (case m v of (Inl e, v1) \<Rightarrow> (Inl e, v1) | (Inr x, v1) \<Rightarrow> k x v1)"

definition thenE :: "unit io \<Rightarrow> 'b io \<Rightarrow> 'b io" where
  "thenE m k = bindE m (\<lambda>_. k)"

definition liftE :: "error + 'a \<Rightarrow> 'a io" where
  "liftE r v = (r, v)"

definition busWrite :: "u8 list \<Rightarrow> unit io" where
  "busWrite bs v = (case WriteBytes bs (bus v) of (r, b1) \<Rightarrow> (r, v\<lparr>bus := b1\<rparr>))"

definition busRead :: "nat \<Rightarrow> (u8 list) io" where
  "busRead n v = (case ReadBytes n (bus v) of (r, b1) \<Rightarrow> (r, v\<lparr>bus := b1\<rparr>))"

section \<open>Registers and register access\<close>

abbreviation PHASECAL_CONFIG_TIMEOUT_MACROP :: u16 where "PHASECAL_CONFIG_TIMEOUT_MACROP \<equiv> 0x004B"
abbreviation MM_CONFIG_TIMEOUT_MACROP_A :: u16 where "MM_CONFIG_TIMEOUT_MACROP_A \<equiv> 0x005A"
abbreviation RANGE_CONFIG_TIMEOUT_MACROP_A :: u16 where "RANGE_CONFIG_TIMEOUT_MACROP_A \<equiv> 0x005E"
abbreviation MM_CONFIG_TIMEOUT_MACROP_B :: u16 where "MM_CONFIG_TIMEOUT_MACROP_B \<equiv> 0x005C"
abbreviation RANGE_CONFIG_TIMEOUT_MACROP_B :: u16 where "RANGE_CONFIG_TIMEOUT_MACROP_B \<equiv> 0x0061"
abbreviation RANGE_CONFIG_VCSEL_PERIOD_A :: u16 where "RANGE_CONFIG_VCSEL_PERIOD_A \<equiv> 0x0060"
abbreviation RANGE_CONFIG_VCSEL_PERIOD_B :: u16 where "RANGE_CONFIG_VCSEL_PERIOD_B \<equiv> 0x0063"
abbreviation RANGE_CONFIG_VALID_PHASE_HIGH :: u16 where "RANGE_CONFIG_VALID_PHASE_HIGH \<equiv> 0x0069"
abbreviation SD_CONFIG_WOI_SD0 :: u16 where "SD_CONFIG_WOI_SD0 \<equiv> 0x0078"
abbreviation SD_CONFIG_WOI_SD1 :: u16 where "SD_CONFIG_WOI_SD1 \<equiv> 0x0079"
abbreviation SD_CONFIG_INITIAL_PHASE_SD0 :: u16 where "SD_CONFIG_INITIAL_PHASE_SD0 \<equiv> 0x007A"
abbreviation SD_CONFIG_INITIAL_PHASE_SD1 :: u16 where "SD_CONFIG_INITIAL_PHASE_SD1 \<equiv> 0x007B"
abbreviation DSS_CONFIG_MANUAL_EFFECTIVE_SPADS_SELECT :: u16 where "DSS_CONFIG_MANUAL_EFFECTIVE_SPADS_SELECT \<equiv> 0x0054"
abbreviation GPIO_TIO_HV_STATUS :: u16 where "GPIO_TIO_HV_STATUS \<equiv> 0x0031"
abbreviation ROI_CONFIG_USER_ROI_CENTRE_SPAD :: u16 where "ROI_CONFIG_USER_ROI_CENTRE_SPAD \<equiv> 0x007F"
abbreviation ROI_CONFIG_USER_ROI_REQUESTED_GLOBAL_XY_SIZE :: u16 where "ROI_CONFIG_USER_ROI_REQUESTED_GLOBAL_XY_SIZE \<equiv> 0x0080"
abbreviation PHASECAL_CONFIG_OVERRIDE :: u16 where "PHASECAL_CONFIG_OVERRIDE \<equiv> 0x004D"
abbreviation CAL_CONFIG_VCSEL_START :: u16 where "CAL_CONFIG_VCSEL_START \<equiv> 0x0047"
abbreviation VHV_CONFIG_INIT :: u16 where "VHV_CONFIG_INIT \<equiv> 0x000B"
abbreviation VHV_CONFIG_TIMEOUT_MACROP_LOOP_BOUND :: u16 where "VHV_CONFIG_TIMEOUT_MACROP_LOOP_BOUND \<equiv> 0x0008"
abbreviation PHASECAL_RESULT_VCSEL_START :: u16 where "PHASECAL_RESULT_VCSEL_START \<equiv> 0x00D8"
abbreviation SYSTEM_INTERRUPT_CLEAR :: u16 where "SYSTEM_INTERRUPT_CLEAR \<equiv> 0x0086"
abbreviation SYSTEM_MODE_START :: u16 where "SYSTEM_MODE_START \<equiv> 0x0087"
abbreviation SYSTEM_INTERMEASUREMENT_PERIOD :: u16 where "SYSTEM_INTERMEASUREMENT_PERIOD \<equiv> 0x006C"
abbreviation RESULT_RANGE_STATUS :: u16 where "RESULT_RANGE_STATUS \<equiv> 0x0089"

text \<open>\<^verbatim>\<open>byte(reg >> 8)\<close> and \<^verbatim>\<open>byte(reg)\<close>: the address goes out big-endian.\<close>

definition hiByte :: "u16 \<Rightarrow> u8" where
  "hiByte x = ucast (drop_bit 8 x)"

definition loByte :: "u16 \<Rightarrow> u8" where
  "loByte x = ucast x"

definition writeReg :: "u16 \<Rightarrow> u8 \<Rightarrow> unit io" where
  "writeReg reg x =
     thenE (busWrite [hiByte reg, loByte reg, x])
           (\<lambda>v. (Inr (), v\<lparr>lastStatus := 0\<rparr>))"

definition writeReg16Bit :: "u16 \<Rightarrow> u16 \<Rightarrow> unit io" where
  "writeReg16Bit reg x =
     thenE (busWrite [hiByte reg, loByte reg, ucast (drop_bit 8 x), ucast x])
           (\<lambda>v. (Inr (), v\<lparr>lastStatus := 0\<rparr>))"

definition writeReg32Bit :: "u16 \<Rightarrow> u32 \<Rightarrow> unit io" where
  "writeReg32Bit reg x =
     thenE (busWrite [hiByte reg, loByte reg,
                      ucast (drop_bit 24 x), ucast (drop_bit 16 x), ucast (drop_bit 8 x), ucast x])
           (\<lambda>v. (Inr (), v\<lparr>lastStatus := 0\<rparr>))"

definition readReg :: "u16 \<Rightarrow> u8 io" where
  "readReg reg =
     thenE (busWrite [hiByte reg, loByte reg])
       (bindE (busRead 1) (\<lambda>buf.
          if length buf < 1 then failE InsufficientData else returnE (buf ! 0)))"

definition readReg16Bit :: "u16 \<Rightarrow> u16 io" where
  "readReg16Bit reg =
     thenE (busWrite [hiByte reg, loByte reg])
       (bindE (busRead 2) (\<lambda>buf.
          if length buf < 2 then failE InsufficientData
          else returnE (push_bit 8 (ucast (buf ! 0)) OR ucast (buf ! 1))))"

section \<open>Timeout arithmetic (budget.go)\<close>

text \<open>
  \<^verbatim>\<open>decodeTimeout\<close>: \<^verbatim>\<open>(uint32(regVal&0xFF) << (regVal >> 8)) + 1\<close>. The shift count is
  the high byte, up to 255; Go shifts out everything for a count of 32 or more, and so
  does \<open>push_bit\<close> on a 32-bit word.
\<close>

definition decodeTimeout :: "u16 \<Rightarrow> u32" where
  "decodeTimeout regVal = push_bit (unat (drop_bit 8 regVal)) (ucast (regVal AND 0xFF)) + 1"

text \<open>The loop of \<^verbatim>\<open>encodeTimeout\<close>: shift right while anything stands above bit 7.\<close>

function encodeLoop :: "u32 \<Rightarrow> u16 \<Rightarrow> u32 \<times> u16" where
  "encodeLoop lsByte msByte =
     (if lsByte AND 0xFFFFFF00 > 0 then encodeLoop (drop_bit 1 lsByte) (msByte + 1)
      else (lsByte, msByte))"
  by pat_completeness auto
termination
proof (relation "measure (\<lambda>(l, m). unat l)")
  show "wf (measure (\<lambda>(l, m). unat l))" by simp
next
  fix lsByte :: u32 and msByte :: u16
  assume "0 < lsByte AND 0xFFFFFF00"
  then have "lsByte \<noteq> 0" by auto
  then have "0 < unat lsByte" by (simp add: unat_gt_0)
  then have "unat lsByte div 2 < unat lsByte" by simp
  then show "((drop_bit 1 lsByte, msByte + 1), (lsByte, msByte)) \<in> measure (\<lambda>(l, m). unat l)"
    by (simp add: drop_bit_eq_div unat_div)
qed

definition encodeTimeout :: "u32 \<Rightarrow> u16" where
  "encodeTimeout timeoutMclks =
     (if timeoutMclks > 0 then
        (case encodeLoop (timeoutMclks - 1) 0 of
           (lsByte, msByte) \<Rightarrow> push_bit 8 msByte OR ucast (lsByte AND 0xFF))
      else 0)"

definition timeoutMclksToMicroseconds :: "u32 \<Rightarrow> u32 \<Rightarrow> u32" where
  "timeoutMclksToMicroseconds timeoutMclks macroPeriodUs =
     drop_bit 12 ((timeoutMclks * macroPeriodUs) + 0x800)"

definition timeoutMicrosecondsToMclks :: "u32 \<Rightarrow> u32 \<Rightarrow> error + u32" where
  "timeoutMicrosecondsToMclks timeoutUs macroPeriodUs =
     (if macroPeriodUs = 0 then Inl DivideByZero
      else Inr ((push_bit 12 timeoutUs + drop_bit 1 macroPeriodUs) div macroPeriodUs))"

definition calcMacroPeriod :: "VL53L1X \<Rightarrow> u8 \<Rightarrow> error + u32" where
  "calcMacroPeriod v vcselPeriod =
     (if fastOscFrequency v = 0 then Inl DivideByZero
      else
        let pllPeriodUs = push_bit 30 (1 :: u32) div ucast (fastOscFrequency v);
            vcselPeriodPclks = push_bit 1 (ucast vcselPeriod + 1 :: u32);
            macroPeriodUs = 2304 * pllPeriodUs;
            macroPeriodUs = drop_bit 6 macroPeriodUs;
            macroPeriodUs = macroPeriodUs * vcselPeriodPclks;
            macroPeriodUs = drop_bit 6 macroPeriodUs
        in Inr macroPeriodUs)"

definition macroPeriodOf :: "u8 \<Rightarrow> u32 io" where
  "macroPeriodOf vcselPeriod v = (calcMacroPeriod v vcselPeriod, v)"

section \<open>Timing budget and distance mode (budget.go)\<close>

definition SetMeasurementTimingBudget :: "u32 \<Rightarrow> unit io" where
  "SetMeasurementTimingBudget budget =
     (let budgetUs = budget * 1000 in
      if budgetUs \<le> TimingGuard then failE TimingBudgetTooLow
      else
        let rangeTimeoutUs = (budgetUs - TimingGuard) div 2 in
        if rangeTimeoutUs > 1100000 then failE TimingBudgetTooHigh
        else
          bindE (readReg RANGE_CONFIG_VCSEL_PERIOD_A) (\<lambda>vcselA.
          bindE (macroPeriodOf vcselA) (\<lambda>macroPeriodUs.
          bindE (liftE (timeoutMicrosecondsToMclks 1000 macroPeriodUs)) (\<lambda>phasecalTimeoutMclks.
          thenE (writeReg PHASECAL_CONFIG_TIMEOUT_MACROP
                   (ucast (if phasecalTimeoutMclks > 0xFF then 0xFF else phasecalTimeoutMclks)))
         (bindE (liftE (timeoutMicrosecondsToMclks 1 macroPeriodUs)) (\<lambda>mmTimeoutA.
          thenE (writeReg16Bit MM_CONFIG_TIMEOUT_MACROP_A (encodeTimeout mmTimeoutA))
         (bindE (liftE (timeoutMicrosecondsToMclks rangeTimeoutUs macroPeriodUs)) (\<lambda>rangeTimeoutA.
          thenE (writeReg16Bit RANGE_CONFIG_TIMEOUT_MACROP_A (encodeTimeout rangeTimeoutA))
         (bindE (readReg RANGE_CONFIG_VCSEL_PERIOD_B) (\<lambda>vcselB.
          bindE (macroPeriodOf vcselB) (\<lambda>macroPeriodUs.
          bindE (liftE (timeoutMicrosecondsToMclks 1 macroPeriodUs)) (\<lambda>mmTimeoutB.
          thenE (writeReg16Bit MM_CONFIG_TIMEOUT_MACROP_B (encodeTimeout mmTimeoutB))
         (bindE (liftE (timeoutMicrosecondsToMclks rangeTimeoutUs macroPeriodUs)) (\<lambda>rangeTimeoutB.
          writeReg16Bit RANGE_CONFIG_TIMEOUT_MACROP_B (encodeTimeout rangeTimeoutB)))))))))))))))"

definition GetMeasurementTimingBudget :: "u32 io" where
  "GetMeasurementTimingBudget =
     bindE (readReg RANGE_CONFIG_VCSEL_PERIOD_A) (\<lambda>vcselA.
     bindE (macroPeriodOf vcselA) (\<lambda>macroPeriodUs.
     bindE (readReg16Bit RANGE_CONFIG_TIMEOUT_MACROP_A) (\<lambda>encoded.
       let rangeTimeoutUs = timeoutMclksToMicroseconds (decodeTimeout encoded) macroPeriodUs;
           budgetMs = (2 * rangeTimeoutUs + TimingGuard) div 1000
       in returnE budgetMs)))"

definition GetDistanceMode :: "VL53L1X \<Rightarrow> DistanceMode" where
  "GetDistanceMode v = distanceMode v"

text \<open>The seven register writes of a mode's preset, in the order of the source.\<close>

definition presetWrites :: "u8 \<Rightarrow> u8 \<Rightarrow> u8 \<Rightarrow> u8 \<Rightarrow> unit io" where
  "presetWrites periodA periodB phaseHigh initialPhase =
     thenE (writeReg RANGE_CONFIG_VCSEL_PERIOD_A periodA)
    (thenE (writeReg RANGE_CONFIG_VCSEL_PERIOD_B periodB)
    (thenE (writeReg RANGE_CONFIG_VALID_PHASE_HIGH phaseHigh)
    (thenE (writeReg SD_CONFIG_WOI_SD0 periodA)
    (thenE (writeReg SD_CONFIG_WOI_SD1 periodB)
    (thenE (writeReg SD_CONFIG_INITIAL_PHASE_SD0 initialPhase)
           (writeReg SD_CONFIG_INITIAL_PHASE_SD1 initialPhase))))))"

definition SetDistanceMode :: "DistanceMode \<Rightarrow> unit io" where
  "SetDistanceMode mode =
     bindE GetMeasurementTimingBudget (\<lambda>budget.
     thenE (if mode = Short then presetWrites 0x07 0x05 0x38 6
            else if mode = Medium then presetWrites 0x0B 0x09 0x78 10
            else if mode = Long then presetWrites 0x0F 0x0D 0xB8 14
            else failE UnrecognizedDistanceMode)
    (thenE (SetMeasurementTimingBudget budget)
           (\<lambda>v. (Inr (), v\<lparr>distanceMode := mode\<rparr>))))"

section \<open>Region of interest (roi.go)\<close>

definition SetROISize :: "u8 \<Rightarrow> u8 \<Rightarrow> unit io" where
  "SetROISize width0 height0 =
     (let width = (if width0 > 16 then 16 else width0);
          height = (if height0 > 16 then 16 else height0)
      in
      if width < 4 \<or> height < 4 then failE ROITooSmall
      else
        thenE (if width > 10 \<or> height > 10 then writeReg ROI_CONFIG_USER_ROI_CENTRE_SPAD 199
               else returnE ())
              (writeReg ROI_CONFIG_USER_ROI_REQUESTED_GLOBAL_XY_SIZE
                 (push_bit 4 (height - 1) OR (width - 1))))"

definition GetROISize :: "(u8 \<times> u8) io" where
  "GetROISize =
     bindE (readReg ROI_CONFIG_USER_ROI_REQUESTED_GLOBAL_XY_SIZE) (\<lambda>regVal.
       returnE ((regVal AND 0x0F) + 1, drop_bit 4 regVal + 1))"

section \<open>Ranging (range.go)\<close>

datatype RangeStatus =
    RangeValid
  | SigmaFail
  | SignalFail
  | RangeValidMinRangeClipped
  | OutOfBoundsFail
  | HardwareFail
  | RangeValidNoWrapCheckFail
  | WrapTargetFail
  | XtalkSignalFail
  | SynchronizationInt
  | MinRangeFail
  | NoneStatus

text \<open>
  The two rates are \<^verbatim>\<open>float32\<close> in the source: a 16-bit count divided by 128. Every such
  quotient is a binary fraction of at most 16 significant bits, which \<^verbatim>\<open>float32\<close>
  holds exactly, so the rational number is the value of the field.
\<close>

record RangingData =
  RangeMM :: u16
  RangeStatus :: RangeStatus
  PeakSignalCountRateMCPS :: rat
  AmbientCountRateMCPS :: rat

fun RangeStatus_String :: "RangeStatus \<Rightarrow> string" where
  "RangeStatus_String RangeValid = ''range valid''"
| "RangeStatus_String SigmaFail = ''sigma fail''"
| "RangeStatus_String SignalFail = ''signal fail''"
| "RangeStatus_String RangeValidMinRangeClipped = ''range valid, min range clipped''"
| "RangeStatus_String OutOfBoundsFail = ''out of bounds fail''"
| "RangeStatus_String HardwareFail = ''hardware fail''"
| "RangeStatus_String RangeValidNoWrapCheckFail = ''range valid, no wrap check fail''"
| "RangeStatus_String WrapTargetFail = ''wrap target fail''"
| "RangeStatus_String XtalkSignalFail = ''xtalk signal fail''"
| "RangeStatus_String SynchronizationInt = ''synchronization int''"
| "RangeStatus_String MinRangeFail = ''min range fail''"
| "RangeStatus_String NoneStatus = ''no update''"

definition StartContinuous :: "u32 \<Rightarrow> unit io" where
  "StartContinuous periodMs =
     (\<lambda>v. (let val = periodMs * ucast (oscCalibrateVal v) in
           thenE (writeReg32Bit SYSTEM_INTERMEASUREMENT_PERIOD val)
          (thenE (writeReg SYSTEM_INTERRUPT_CLEAR 0x01)
                 (writeReg SYSTEM_MODE_START 0x40))) v)"

definition StopContinuous :: "unit io" where
  "StopContinuous =
     thenE (writeReg SYSTEM_MODE_START 0x80)
    (thenE (\<lambda>v. (Inr (), v\<lparr>calibrated := False\<rparr>))
    (thenE (\<lambda>v. (if savedVHVInit v \<noteq> 0 then writeReg VHV_CONFIG_INIT (savedVHVInit v)
                  else returnE ()) v)
    (thenE (\<lambda>v. (if savedVHVTimeout v \<noteq> 0
                  then writeReg VHV_CONFIG_TIMEOUT_MACROP_LOOP_BOUND (savedVHVTimeout v)
                  else returnE ()) v)
           (writeReg PHASECAL_CONFIG_OVERRIDE 0x00))))"

definition dataReady :: "bool io" where
  "dataReady = bindE (readReg GPIO_TIO_HV_STATUS) (\<lambda>status. returnE ((status AND 0x01) = 0))"

definition u16be :: "u8 \<Rightarrow> u8 \<Rightarrow> u16" where
  "u16be a b = push_bit 8 (ucast a) OR ucast b"

definition readResults :: "unit io" where
  "readResults =
     thenE (busWrite [hiByte RESULT_RANGE_STATUS, loByte RESULT_RANGE_STATUS])
       (bindE (busRead 17) (\<lambda>buf.
          if length buf < 17 then failE InsufficientData
          else (\<lambda>v. (Inr (), v\<lparr>results :=
                  \<lparr>rangeStatus = buf ! 0,
                   streamCount = buf ! 2,
                   dssActualEffectiveSpadsSD0 = u16be (buf ! 3) (buf ! 4),
                   ambientCountRateMCPS_SD0 = u16be (buf ! 7) (buf ! 8),
                   finalCrosstalkCorrectedRangeMM_SD0 = u16be (buf ! 13) (buf ! 14),
                   peakSignalCountRateCrosstalkCorrectedMCPS_SD0 = u16be (buf ! 15) (buf ! 16)\<rparr>\<rparr>))))"

definition setupManualCalibration :: "unit io" where
  "setupManualCalibration =
     bindE (readReg VHV_CONFIG_INIT) (\<lambda>initVal.
     thenE (\<lambda>v. (Inr (), v\<lparr>savedVHVInit := initVal\<rparr>))
    (bindE (readReg VHV_CONFIG_TIMEOUT_MACROP_LOOP_BOUND) (\<lambda>timeoutVal.
     thenE (\<lambda>v. (Inr (), v\<lparr>savedVHVTimeout := timeoutVal\<rparr>))
    (thenE (\<lambda>v. writeReg VHV_CONFIG_INIT (savedVHVInit v AND 0x7F) v)
    (thenE (\<lambda>v. writeReg VHV_CONFIG_TIMEOUT_MACROP_LOOP_BOUND
                  ((savedVHVTimeout v AND 0x03) + push_bit 2 3) v)
    (thenE (writeReg PHASECAL_CONFIG_OVERRIDE 0x01)
    (bindE (readReg PHASECAL_RESULT_VCSEL_START) (\<lambda>phStart.
           writeReg CAL_CONFIG_VCSEL_START phStart))))))))"

text \<open>
  \<^verbatim>\<open>updateDSS\<close>. The source falls through to the write of the mid-point \<open>0x8000\<close>
  from both inner conditions; here each \<open>else\<close> branch is that write.
\<close>

definition updateDSS :: "unit io" where
  "updateDSS = (\<lambda>v.
     let spadCount = dssActualEffectiveSpadsSD0 (results v) in
     if spadCount \<noteq> 0 then
       let totalRatePerSpad =
             (ucast (peakSignalCountRateCrosstalkCorrectedMCPS_SD0 (results v)) :: u32)
               + ucast (ambientCountRateMCPS_SD0 (results v));
           totalRatePerSpad = (if totalRatePerSpad > 0xFFFF then 0xFFFF else totalRatePerSpad);
           totalRatePerSpad = push_bit 16 totalRatePerSpad;
           totalRatePerSpad = totalRatePerSpad div ucast spadCount
       in
       if totalRatePerSpad \<noteq> 0 then
         let requiredSpads = push_bit 16 (ucast TargetRate :: u32) div totalRatePerSpad;
             requiredSpads = (if requiredSpads > 0xFFFF then 0xFFFF else requiredSpads)
         in writeReg16Bit DSS_CONFIG_MANUAL_EFFECTIVE_SPADS_SELECT (ucast requiredSpads) v
       else writeReg16Bit DSS_CONFIG_MANUAL_EFFECTIVE_SPADS_SELECT 0x8000 v
     else writeReg16Bit DSS_CONFIG_MANUAL_EFFECTIVE_SPADS_SELECT 0x8000 v)"

definition countRateFixedToFloat :: "u16 \<Rightarrow> rat" where
  "countRateFixedToFloat countRateFixed = of_nat (unat countRateFixed) / of_nat (2 ^ 7)"

definition statusOf :: "u8 \<Rightarrow> u8 \<Rightarrow> RangeStatus" where
  "statusOf code stream =
     (if code = 17 \<or> code = 2 \<or> code = 1 \<or> code = 3 then HardwareFail
      else if code = 13 then MinRangeFail
      else if code = 18 then SynchronizationInt
      else if code = 5 then OutOfBoundsFail
      else if code = 4 then SignalFail
      else if code = 6 then SigmaFail
      else if code = 7 then WrapTargetFail
      else if code = 12 then XtalkSignalFail
      else if code = 8 then RangeValidMinRangeClipped
      else if code = 9 then (if stream = 0 then RangeValidNoWrapCheckFail else RangeValid)
      else NoneStatus)"

definition getRangingData :: "VL53L1X \<Rightarrow> RangingData" where
  "getRangingData v =
     (let rangeVal = finalCrosstalkCorrectedRangeMM_SD0 (results v) in
      \<lparr>RangeMM = ucast (((ucast rangeVal :: u32) * 2011 + 0x0400) div 0x0800),
       RangeStatus = statusOf (rangeStatus (results v)) (streamCount (results v)),
       PeakSignalCountRateMCPS =
         countRateFixedToFloat (peakSignalCountRateCrosstalkCorrectedMCPS_SD0 (results v)),
       AmbientCountRateMCPS = countRateFixedToFloat (ambientCountRateMCPS_SD0 (results v))\<rparr>)"

text \<open>timeout.go: the poll's deadline.\<close>

definition startTimeout :: "VL53L1X \<Rightarrow> VL53L1X" where
  "startTimeout v = v\<lparr>timeoutStart := wallClock v\<rparr>"

definition checkTimeoutExpired :: "VL53L1X \<Rightarrow> bool" where
  "checkTimeoutExpired v = (ioTimeout v > 0 \<and> wallClock v - timeoutStart v > ioTimeout v)"

text \<open>
  The polling loop of a blocking \<^verbatim>\<open>Read\<close>. With no timeout set and a device that never
  gets ready it runs forever: the value is \<open>None\<close>.
\<close>

partial_function (option) waitReady :: "VL53L1X \<Rightarrow> ((error + unit) \<times> VL53L1X) option" where
  "waitReady v =
     (case dataReady v of
        (Inl e, v1) \<Rightarrow> Some (Inl e, v1)
      | (Inr ready, v1) \<Rightarrow>
          if ready then Some (Inr (), v1)
          else if checkTimeoutExpired v1 then Some (Inl DataTimeout, v1\<lparr>didTimeout := True\<rparr>)
          else waitReady (v1\<lparr>wallClock := wallClock v1 + 1000000\<rparr>))"

declare waitReady.simps [code]

text \<open>
  The part of \<^verbatim>\<open>Read\<close> after the poll, in two pieces: \<open>readTail\<close> is what follows
  the calibration step.
\<close>

definition readTail :: "RangingData io" where
  "readTail =
     thenE updateDSS
    (bindE (\<lambda>v. (Inr (getRangingData v), v)) (\<lambda>rData.
     thenE (writeReg SYSTEM_INTERRUPT_CLEAR 0x01)
           (returnE rData)))"

definition fetchResult :: "RangingData io" where
  "fetchResult =
     thenE readResults
    (thenE (\<lambda>v. (if \<not> calibrated v
                  then thenE setupManualCalibration (\<lambda>v. (Inr (), v\<lparr>calibrated := True\<rparr>))
                  else returnE ()) v)
           readTail)"

definition Read :: "bool \<Rightarrow> VL53L1X \<Rightarrow> ((error + RangingData) \<times> VL53L1X) option" where
  "Read blocking v =
     (if blocking then
        (case waitReady (startTimeout v) of
           None \<Rightarrow> None
         | Some (Inl e, v1) \<Rightarrow> Some (Inl e, v1)
         | Some (Inr _, v1) \<Rightarrow> Some (fetchResult v1))
      else Some (fetchResult v))"

section \<open>A ranging session (example/main.go)\<close>



section \<open>Auxiliary notions for the statements\<close>

text \<open>
  \<open>writesTo a t\<close>: the data of the register writes addressed to \<open>a\<close> among the
  transfers \<open>t\<close>, oldest first. A write of the two address bytes alone opens a read and
  is not a register write.
\<close>

fun writesTo :: "u16 \<Rightarrow> xfer list \<Rightarrow> u8 list list" where
  "writesTo a [] = []"
| "writesTo a (Wr (hi # lo # x # xs) # t) =
     (if addr16 hi lo = a then (x # xs) # writesTo a t else writesTo a t)"
| "writesTo a (_ # t) = writesTo a t"


text \<open>
  \<open>requiredSpads_spec\<close> is the DSS value as the specification words it, over the
  natural numbers: no wrap-around, no truncation to 16 bits.
\<close>

definition requiredSpads_spec :: "resultBuffer \<Rightarrow> nat" where
  "requiredSpads_spec r =
     (let spadCount = unat (dssActualEffectiveSpadsSD0 r);
          totalRate = min (unat (peakSignalCountRateCrosstalkCorrectedMCPS_SD0 r)
                           + unat (ambientCountRateMCPS_SD0 r)) 65535;
          totalRatePerSpad = (if spadCount = 0 then 0 else (totalRate * 65536) div spadCount)
      in if spadCount = 0 \<or> totalRatePerSpad = 0 then 32768
         else min ((2560 * 65536) div totalRatePerSpad) 65535)"


text \<open>A driver instance to evaluate the operations on: every register reads 0 but the
  two VCSEL periods of the short-range preset; the transport works.\<close>

definition demoDriver :: VL53L1X where
  "demoDriver =
     \<lparr>bus = \<lparr>regs = (\<lambda>_. 0)(0x0060 := 7, 0x0063 := 5), index = 0, script = [], trace = []\<rparr>,
      wallClock = 0, ioTimeout = 0, didTimeout = False, timeoutStart = 0,
      fastOscFrequency = 0xBCCC, oscCalibrateVal = 0x0100, calibrated = False,
      savedVHVInit = 0, savedVHVTimeout = 0, distanceMode = Short, timingBudget = 50,
      lastStatus = 0,
      results = \<lparr>rangeStatus = 9, streamCount = 0, dssActualEffectiveSpadsSD0 = 0,
        ambientCountRateMCPS_SD0 = 0, finalCrosstalkCorrectedRangeMM_SD0 = 1000,
        peakSignalCountRateCrosstalkCorrectedMCPS_SD0 = 0\<rparr>\<rparr>"


text \<open>\<open>keeps f m\<close>: the method \<open>m\<close> leaves the component \<open>f\<close> of the driver as it
  was, whatever it returns. \<open>raises m S\<close>: every error \<open>m\<close> returns is in \<open>S\<close>.\<close>

definition keeps :: "(VL53L1X \<Rightarrow> 'x) \<Rightarrow> 'a io \<Rightarrow> bool" where
  "keeps f m = (\<forall>v. f (snd (m v)) = f v)"

definition raises :: "'a io \<Rightarrow> error set \<Rightarrow> bool" where
  "raises m S = (\<forall>v e. fst (m v) = Inl e \<longrightarrow> e \<in> S)"

section \<open>Basic facts\<close>

lemma bindE_Inr: "m v = (Inr x, v1) \<Longrightarrow> bindE m k v = k x v1"
  by (simp add: bindE_def)

lemma bindE_Inl: "m v = (Inl e, v1) \<Longrightarrow> bindE m k v = (Inl e, v1)"
  by (simp add: bindE_def)

subsection \<open>What a method leaves alone\<close>

lemma keepsI: "(\<And>v. f (snd (m v)) = f v) \<Longrightarrow> keeps f m"
  by (simp add: keeps_def)

lemma keepsD: "keeps f m \<Longrightarrow> f (snd (m v)) = f v"
  by (simp add: keeps_def)

lemma keeps_bindE:
  assumes "keeps f m" and "\<And>x. keeps f (k x)"
  shows "keeps f (bindE m k)"
proof (rule keepsI)
  fix v
  obtain r v1 where mv: "m v = (r, v1)" by (cases "m v")
  have v1: "f v1 = f v" using keepsD [OF assms(1), of v] mv by simp
  show "f (snd (bindE m k v)) = f v"
  proof (cases r)
    case (Inl e)
    then show ?thesis using mv v1 by (simp add: bindE_def)
  next
    case (Inr x)
    then show ?thesis using mv v1 keepsD [OF assms(2), of x v1] by (simp add: bindE_def)
  qed
qed

lemma keeps_thenE: "keeps f m \<Longrightarrow> keeps f k \<Longrightarrow> keeps f (thenE m k)"
  by (simp add: thenE_def keeps_bindE)

lemma keeps_returnE: "keeps f (returnE x)"
  by (simp add: keeps_def returnE_def)

lemma keeps_failE: "keeps f (failE e)"
  by (simp add: keeps_def failE_def)

lemma keeps_liftE: "keeps f (liftE r)"
  by (simp add: keeps_def liftE_def)

lemma keeps_if: "keeps f a \<Longrightarrow> keeps f b \<Longrightarrow> keeps f (if c then a else b)"
  by simp

lemma keeps_busWrite: "(\<And>v b. f (v\<lparr>bus := b\<rparr>) = f v) \<Longrightarrow> keeps f (busWrite bs)"
  by (simp add: keeps_def busWrite_def split: prod.splits)

lemma keeps_busRead: "(\<And>v b. f (v\<lparr>bus := b\<rparr>) = f v) \<Longrightarrow> keeps f (busRead n)"
  by (simp add: keeps_def busRead_def split: prod.splits)

lemma keeps_upd: "(\<And>v. f (g v) = f v) \<Longrightarrow> keeps f (\<lambda>v. (Inr x, g v))"
  by (simp add: keeps_def)

lemma keeps_macroPeriodOf: "keeps f (macroPeriodOf p)"
  by (simp add: keeps_def macroPeriodOf_def)

lemma keeps_writeReg:
  "(\<And>v b. f (v\<lparr>bus := b\<rparr>) = f v) \<Longrightarrow> (\<And>v x. f (v\<lparr>lastStatus := x\<rparr>) = f v) \<Longrightarrow> keeps f (writeReg reg x)"
  unfolding writeReg_def by (intro keeps_thenE keeps_busWrite keeps_upd) auto

lemma keeps_writeReg16Bit:
  "(\<And>v b. f (v\<lparr>bus := b\<rparr>) = f v) \<Longrightarrow> (\<And>v x. f (v\<lparr>lastStatus := x\<rparr>) = f v) \<Longrightarrow> keeps f (writeReg16Bit reg x)"
  unfolding writeReg16Bit_def by (intro keeps_thenE keeps_busWrite keeps_upd) auto

lemma keeps_writeReg32Bit:
  "(\<And>v b. f (v\<lparr>bus := b\<rparr>) = f v) \<Longrightarrow> (\<And>v x. f (v\<lparr>lastStatus := x\<rparr>) = f v) \<Longrightarrow> keeps f (writeReg32Bit reg x)"
  unfolding writeReg32Bit_def by (intro keeps_thenE keeps_busWrite keeps_upd) auto

lemma keeps_readReg: "(\<And>v b. f (v\<lparr>bus := b\<rparr>) = f v) \<Longrightarrow> keeps f (readReg reg)"
  unfolding readReg_def
  by (intro keeps_thenE keeps_bindE keeps_busWrite keeps_busRead keeps_if keeps_failE keeps_returnE) auto

lemma keeps_readReg16Bit: "(\<And>v b. f (v\<lparr>bus := b\<rparr>) = f v) \<Longrightarrow> keeps f (readReg16Bit reg)"
  unfolding readReg16Bit_def
  by (intro keeps_thenE keeps_bindE keeps_busWrite keeps_busRead keeps_if keeps_failE keeps_returnE) auto

lemma keeps_GetMeasurementTimingBudget:
  "(\<And>v b. f (v\<lparr>bus := b\<rparr>) = f v) \<Longrightarrow> keeps f GetMeasurementTimingBudget"
  unfolding GetMeasurementTimingBudget_def Let_def
  by (intro keeps_bindE keeps_readReg keeps_readReg16Bit keeps_macroPeriodOf keeps_returnE) auto

lemma keeps_SetMeasurementTimingBudget:
  "(\<And>v b. f (v\<lparr>bus := b\<rparr>) = f v) \<Longrightarrow> (\<And>v x. f (v\<lparr>lastStatus := x\<rparr>) = f v)
   \<Longrightarrow> keeps f (SetMeasurementTimingBudget budget)"
  unfolding SetMeasurementTimingBudget_def Let_def
  by (intro keeps_if keeps_bindE keeps_thenE keeps_readReg keeps_writeReg keeps_writeReg16Bit
        keeps_macroPeriodOf keeps_liftE keeps_failE) auto

lemma keeps_presetWrites:
  "(\<And>v b. f (v\<lparr>bus := b\<rparr>) = f v) \<Longrightarrow> (\<And>v x. f (v\<lparr>lastStatus := x\<rparr>) = f v)
   \<Longrightarrow> keeps f (presetWrites a b c d)"
  unfolding presetWrites_def
  by (intro keeps_thenE keeps_writeReg) auto

subsection \<open>The errors a method can return\<close>

lemma raisesI: "(\<And>v e. fst (m v) = Inl e \<Longrightarrow> e \<in> S) \<Longrightarrow> raises m S"
  by (simp add: raises_def)

lemma raisesD: "raises m S \<Longrightarrow> fst (m v) = Inl e \<Longrightarrow> e \<in> S"
  by (simp add: raises_def)

lemma raises_bindE:
  assumes "raises m S" and "\<And>x. raises (k x) S"
  shows "raises (bindE m k) S"
proof (rule raisesI)
  fix v e
  assume a: "fst (bindE m k v) = Inl e"
  obtain r v1 where mv: "m v = (r, v1)" by (cases "m v")
  show "e \<in> S"
  proof (cases r)
    case (Inl e')
    then show ?thesis using a mv raisesD [OF assms(1), of v e'] by (simp add: bindE_def)
  next
    case (Inr x)
    then show ?thesis using a mv raisesD [OF assms(2), of x v1 e] by (simp add: bindE_def)
  qed
qed

lemma raises_thenE: "raises m S \<Longrightarrow> raises k S \<Longrightarrow> raises (thenE m k) S"
  by (simp add: thenE_def raises_bindE)

lemma raises_returnE: "raises (returnE x) S"
  by (simp add: raises_def returnE_def)

lemma raises_failE: "e \<in> S \<Longrightarrow> raises (failE e) S"
  by (simp add: raises_def failE_def)

lemma raises_upd: "raises (\<lambda>v. (Inr x, g v)) S"
  by (simp add: raises_def)

lemma raises_if: "raises a S \<Longrightarrow> raises b S \<Longrightarrow> raises (if c then a else b) S"
  by simp

lemma raises_busWrite: "TransportError \<in> S \<Longrightarrow> raises (busWrite bs) S"
  by (auto simp: raises_def busWrite_def WriteBytes_def split: prod.splits fault.splits)

lemma raises_busRead: "TransportError \<in> S \<Longrightarrow> raises (busRead n) S"
  by (auto simp: raises_def busRead_def ReadBytes_def split: prod.splits fault.splits)

lemma raises_writeReg: "TransportError \<in> S \<Longrightarrow> raises (writeReg reg x) S"
  unfolding writeReg_def by (intro raises_thenE raises_busWrite raises_upd)

lemma raises_writeReg16Bit: "TransportError \<in> S \<Longrightarrow> raises (writeReg16Bit reg x) S"
  unfolding writeReg16Bit_def by (intro raises_thenE raises_busWrite raises_upd)

lemma raises_writeReg32Bit: "TransportError \<in> S \<Longrightarrow> raises (writeReg32Bit reg x) S"
  unfolding writeReg32Bit_def by (intro raises_thenE raises_busWrite raises_upd)


lemma raises_readReg16Bit:
  "TransportError \<in> S \<Longrightarrow> InsufficientData \<in> S \<Longrightarrow> raises (readReg16Bit reg) S"
  unfolding readReg16Bit_def
  by (intro raises_thenE raises_bindE raises_busWrite raises_busRead raises_if raises_failE
        raises_returnE)






section \<open>Timing budget: rejection of illegal budgets\<close>




section \<open>Distance mode on failure, and the status decoder\<close>

lemma keeps_preset_choice:
  "keeps distanceMode
     (if mode = Short then presetWrites 0x07 0x05 0x38 6
      else if mode = Medium then presetWrites 0x0B 0x09 0x78 10
      else if mode = Long then presetWrites 0x0F 0x0D 0xB8 14
      else failE UnrecognizedDistanceMode)"
  by (intro keeps_if keeps_presetWrites keeps_failE) simp_all

text \<open>
  C10. Whenever \<^verbatim>\<open>SetDistanceMode\<close> returns an error (from reading the budget, from the
  unrecognized mode, from a preset write or from re-applying the budget), the stored
  distance mode is the one before the call: \<^verbatim>\<open>GetDistanceMode\<close> returns the same mode.
\<close>

theorem SetDistanceMode_error_keeps_mode:
  assumes "fst (SetDistanceMode mode v) = Inl e"
  shows "GetDistanceMode (snd (SetDistanceMode mode v)) = GetDistanceMode v"
proof -
  let ?P = "if mode = Short then presetWrites 0x07 0x05 0x38 6
      else if mode = Medium then presetWrites 0x0B 0x09 0x78 10
      else if mode = Long then presetWrites 0x0F 0x0D 0xB8 14
      else failE UnrecognizedDistanceMode"
  obtain r1 v1 where g: "GetMeasurementTimingBudget v = (r1, v1)"
    by (cases "GetMeasurementTimingBudget v")
  have k1: "distanceMode v1 = distanceMode v"
    using keepsD [OF keeps_GetMeasurementTimingBudget, of distanceMode v] g by simp
  show ?thesis
  proof (cases r1)
    case (Inl e1)
    then show ?thesis using g k1 by (simp add: SetDistanceMode_def bindE_def GetDistanceMode_def)
  next
    case budget: (Inr budget)
    obtain r2 v2 where p: "?P v1 = (r2, v2)" by (cases "?P v1")
    have k2: "distanceMode v2 = distanceMode v1"
      using keepsD [OF keeps_preset_choice, of mode v1] p by simp
    show ?thesis
    proof (cases r2)
      case (Inl e2)
      then show ?thesis
        using g budget p k1 k2
        by (simp add: SetDistanceMode_def bindE_def thenE_def GetDistanceMode_def)
    next
      case (Inr u2)
      obtain r3 v3 where s: "SetMeasurementTimingBudget budget v2 = (r3, v3)"
        by (cases "SetMeasurementTimingBudget budget v2")
      have k3: "distanceMode v3 = distanceMode v2"
        using keepsD [OF keeps_SetMeasurementTimingBudget, of distanceMode budget v2] s by simp
      show ?thesis
      proof (cases r3)
        case (Inl e3)
        then show ?thesis
          using g budget p Inr s k1 k2 k3
          by (simp add: SetDistanceMode_def bindE_def thenE_def GetDistanceMode_def)
      next
        case ok: (Inr u3)
        have "fst (SetDistanceMode mode v) = Inr ()"
          using g budget p Inr s ok
          by (simp add: SetDistanceMode_def bindE_def thenE_def)
        then show ?thesis using assms by simp
      qed
    qed
  qed
qed

theorem SetDistanceMode_error_keeps_mode_witness:
  "fst (SetDistanceMode 7 demoDriver) = Inl UnrecognizedDistanceMode \<and>
   GetDistanceMode (snd (SetDistanceMode 7 demoDriver)) = GetDistanceMode demoDriver \<and>
   fst (SetDistanceMode Long demoDriver) = Inl TimingBudgetTooLow \<and>
   GetDistanceMode (snd (SetDistanceMode Long demoDriver)) = GetDistanceMode demoDriver \<and>
   GetDistanceMode demoDriver = Short"
proof -
  have a: "fst (SetDistanceMode 7 demoDriver) = Inl UnrecognizedDistanceMode" by code_simp
  have b: "fst (SetDistanceMode Long demoDriver) = Inl TimingBudgetTooLow" by code_simp
  have c: "GetDistanceMode demoDriver = Short" by code_simp
  show ?thesis
    using a b c SetDistanceMode_error_keeps_mode [OF a] SetDistanceMode_error_keeps_mode [OF b]
    by simp
qed

text \<open>
  C8. The status decoder of \<^verbatim>\<open>getRangingData\<close>: raw status 9 is "range valid, no
  wrap check fail" when the stream count is 0 and "range valid" otherwise; a raw status
  outside 1-9, 12, 13, 17 and 18 is "no update". \<^verbatim>\<open>getRangingData\<close> returns a
  measurement for every result buffer: it has no error result.
\<close>

theorem getRangingData_status:
  "(rangeStatus (results v) = 9 \<and> streamCount (results v) = 0 \<longrightarrow>
      RangeStatus (getRangingData v) = RangeValidNoWrapCheckFail \<and>
      RangeStatus_String (RangeStatus (getRangingData v)) = ''range valid, no wrap check fail'') \<and>
   (rangeStatus (results v) = 9 \<and> streamCount (results v) \<noteq> 0 \<longrightarrow>
      RangeStatus (getRangingData v) = RangeValid \<and>
      RangeStatus_String (RangeStatus (getRangingData v)) = ''range valid'') \<and>
   (rangeStatus (results v) \<notin> {1, 2, 3, 4, 5, 6, 7, 8, 9, 12, 13, 17, 18} \<longrightarrow>
      RangeStatus (getRangingData v) = NoneStatus \<and>
      RangeStatus_String (RangeStatus (getRangingData v)) = ''no update'')"
  by (simp add: getRangingData_def statusOf_def Let_def)

theorem getRangingData_status_witness:
  "RangeStatus (getRangingData demoDriver) = RangeValidNoWrapCheckFail \<and>
   RangeStatus (getRangingData (demoDriver\<lparr>results := (results demoDriver)\<lparr>streamCount := 3\<rparr>\<rparr>))
     = RangeValid \<and>
   RangeStatus (getRangingData (demoDriver\<lparr>results := (results demoDriver)\<lparr>rangeStatus := 10\<rparr>\<rparr>))
     = NoneStatus"
  using getRangingData_status [of demoDriver]
    getRangingData_status [of "demoDriver\<lparr>results := (results demoDriver)\<lparr>streamCount := 3\<rparr>\<rparr>"]
    getRangingData_status [of "demoDriver\<lparr>results := (results demoDriver)\<lparr>rangeStatus := 10\<rparr>\<rparr>"]
  by (simp add: demoDriver_def)

subsection \<open>Transfers on the bus\<close>

lemma addr16_bytes: "addr16 (hiByte reg) (loByte reg) = reg"
  unfolding addr16_def hiByte_def loByte_def
  by (rule bit_word_eqI) (auto simp: bit_simps)

lemma env_step_quiet: "script b = [] \<Longrightarrow> env_step b = (NoFault, b)"
  by (simp add: env_step_def)

lemma env_step_trace: "env_step b = (f, b1) \<Longrightarrow> trace b1 = trace b"
  by (auto simp: env_step_def split: list.splits prod.splits)

lemma device_write_trace: "trace (device_write bs b) = trace b @ [Wr bs]"
  by (simp add: device_write_def split: list.splits)

lemma device_write_script: "script (device_write bs b) = script b"
  by (simp add: device_write_def split: list.splits)

lemma busWrite_unfold:
  "busWrite bs v =
     (case env_step (bus v) of
        (BusError, b1) \<Rightarrow> (Inl TransportError, v\<lparr>bus := b1\<rparr>)
      | (_, b1) \<Rightarrow> (Inr (), v\<lparr>bus := device_write bs b1\<rparr>))"
  by (simp add: busWrite_def WriteBytes_def split: prod.splits fault.splits)

lemma busWrite_Inr_trace:
  "busWrite bs v = (Inr u, v') \<Longrightarrow> trace (bus v') = trace (bus v) @ [Wr bs]"
  by (auto simp: busWrite_unfold device_write_trace split: prod.splits fault.splits
      dest: env_step_trace)


lemma busWrite_quiet:
  "script (bus v) = [] \<Longrightarrow> busWrite bs v = (Inr (), v\<lparr>bus := device_write bs (bus v)\<rparr>)"
  by (simp add: busWrite_unfold env_step_quiet)

lemma busRead_quiet:
  "script (bus v) = [] \<Longrightarrow>
   busRead n v =
     (Inr (fetch (index (bus v)) n (regs (bus v))),
      v\<lparr>bus := (bus v)\<lparr>index := index (bus v) + of_nat n,
                        trace := trace (bus v) @ [Rd (fetch (index (bus v)) n (regs (bus v)))]\<rparr>\<rparr>)"
  by (simp add: busRead_def ReadBytes_def env_step_quiet)

lemma writeReg_Inr_trace:
  assumes "writeReg reg x v = (Inr u, v')"
  shows "trace (bus v') = trace (bus v) @ [Wr [hiByte reg, loByte reg, x]]"
proof -
  obtain r v1 where w: "busWrite [hiByte reg, loByte reg, x] v = (r, v1)"
    by (cases "busWrite [hiByte reg, loByte reg, x] v")
  show ?thesis
  proof (cases r)
    case (Inl e)
    then show ?thesis using assms w by (simp add: writeReg_def thenE_def bindE_def)
  next
    case (Inr u1)
    then have "v' = v1\<lparr>lastStatus := 0\<rparr>"
      using assms w by (simp add: writeReg_def thenE_def bindE_def)
    then show ?thesis using busWrite_Inr_trace w Inr by simp
  qed
qed

lemma writeReg_quiet:
  "script (bus v) = [] \<Longrightarrow>
   writeReg reg x v =
     (Inr (), v\<lparr>bus := (bus v)\<lparr>regs := (regs (bus v))(reg := x), index := reg + 1,
                    trace := trace (bus v) @ [Wr [hiByte reg, loByte reg, x]]\<rparr>,
               lastStatus := 0\<rparr>)"
  by (simp add: writeReg_def thenE_def bindE_def busWrite_quiet device_write_def addr16_bytes)

lemma writeReg16Bit_quiet:
  "script (bus v) = [] \<Longrightarrow>
   writeReg16Bit reg x v =
     (Inr (), v\<lparr>bus := (bus v)\<lparr>regs := (regs (bus v))(reg := ucast (drop_bit 8 x), reg + 1 := ucast x),
                    index := reg + 2,
                    trace := trace (bus v) @ [Wr [hiByte reg, loByte reg, ucast (drop_bit 8 x), ucast x]]\<rparr>,
               lastStatus := 0\<rparr>)"
  by (simp add: writeReg16Bit_def thenE_def bindE_def busWrite_quiet device_write_def addr16_bytes)

lemma readReg_quiet:
  "script (bus v) = [] \<Longrightarrow>
   readReg reg v =
     (Inr (regs (bus v) reg),
      v\<lparr>bus := (bus v)\<lparr>index := reg + 1,
                    trace := trace (bus v) @ [Wr [hiByte reg, loByte reg], Rd [regs (bus v) reg]]\<rparr>\<rparr>)"
  by (simp add: readReg_def thenE_def bindE_def busWrite_quiet busRead_quiet device_write_def
      addr16_bytes returnE_def failE_def device_write_script)

lemma readReg16Bit_quiet:
  "script (bus v) = [] \<Longrightarrow>
   readReg16Bit reg v =
     (Inr (push_bit 8 (ucast (regs (bus v) reg)) OR ucast (regs (bus v) (reg + 1))),
      v\<lparr>bus := (bus v)\<lparr>index := reg + 2,
                    trace := trace (bus v) @ [Wr [hiByte reg, loByte reg],
                                              Rd [regs (bus v) reg, regs (bus v) (reg + 1)]]\<rparr>\<rparr>)"
  by (simp add: readReg16Bit_def thenE_def bindE_def busWrite_quiet busRead_quiet device_write_def
      addr16_bytes returnE_def failE_def device_write_script numeral_2_eq_2)

section \<open>Dynamic SPAD selection\<close>

lemma unat_u16_bound: "unat (x :: u16) < 65536"
  using unsigned_less [of x, where 'a = nat] by simp

lemma unat_u8_bound: "unat (x :: u8) < 256"
  using unsigned_less [of x, where 'a = nat] by simp

lemma unat_u32_bound: "unat (x :: u32) < 4294967296"
  using unsigned_less [of x, where 'a = nat] by simp

lemma unat_ucast_16_32: "unat (ucast (x :: u16) :: u32) = unat x"
  using unat_u16_bound [of x] by (simp add: unsigned_ucast_eq take_bit_nat_eq_self)

lemma unat_ucast_8_32: "unat (ucast (x :: u8) :: u32) = unat x"
  using unat_u8_bound [of x] by (simp add: unsigned_ucast_eq take_bit_nat_eq_self)

lemma unat_ucast_32_16: "unat x < 65536 \<Longrightarrow> unat (ucast (x :: u32) :: u16) = unat x"
  by (simp add: unsigned_ucast_eq take_bit_nat_eq_self)

lemma unat_push_bit_32: "unat x * 2 ^ n < 4294967296 \<Longrightarrow> unat (push_bit n (x :: u32)) = unat x * 2 ^ n"
  by (subst unsigned_push_bit_eq) (simp add: take_bit_nat_eq_self push_bit_eq_mult)

lemma u32_less_iff: "(x :: u32) < y \<longleftrightarrow> unat x < unat y"
  by (rule word_less_nat_alt)

lemma u32_eq_0_iff: "(x :: u32) = 0 \<longleftrightarrow> unat x = 0"
  by (simp add: unat_0_iff)

lemma unat_eq_word_of_nat: "unat (x :: 'a :: len word) = n \<Longrightarrow> x = word_of_nat n"
  by auto

text \<open>The arithmetic of \<^verbatim>\<open>updateDSS\<close>, read as natural numbers.\<close>

lemma dss_total:
  fixes p a :: u16
  defines "t \<equiv> (ucast p :: u32) + ucast a"
  shows "unat (if t > 0xFFFF then 0xFFFF else t) = min (unat p + unat a) 65535"
proof -
  have "unat t = unat p + unat a"
    unfolding t_def using unat_u16_bound [of p] unat_u16_bound [of a]
    by (simp add: unat_word_ariths unat_ucast_16_32)
  then show ?thesis by (simp add: u32_less_iff)
qed

lemma dss_per_spad:
  fixes c :: u32 and s :: u16
  assumes "unat c \<le> 65535"
  shows "unat (push_bit 16 c div ucast s) = (unat c * 65536) div unat s"
proof -
  have "unat (push_bit 16 c) = unat c * 65536"
    using assms unat_push_bit_32 [of c 16] by simp
  then show ?thesis by (simp add: unat_div unat_ucast_16_32)
qed

lemma dss_required:
  fixes t :: u32
  shows "unat (ucast (let r = push_bit 16 (ucast TargetRate :: u32) div t
                      in if r > 0xFFFF then 0xFFFF else r) :: u16)
         = min ((2560 * 65536) div unat t) 65535"
proof -
  have "unat (push_bit 16 (ucast TargetRate :: u32) div t) = (2560 * 65536) div unat t"
    by (simp add: unat_div)
  then show ?thesis
    by (simp add: Let_def u32_less_iff unat_ucast_32_16 min_def)
qed

text \<open>
  C7. \<^verbatim>\<open>updateDSS\<close> is one 16-bit write to the manual-SPAD-select register, for
  every result buffer. The value written is the one of the specification, computed over
  the natural numbers: with \<open>total = min (peak + ambient) 0xFFFF\<close> and
  \<open>perSpad = (total * 2^16) div spadCount\<close>, it is \<open>min ((targetRate * 2^16) div perSpad) 0xFFFF\<close>
  when the SPAD count and \<open>perSpad\<close> are both nonzero, and \<open>0x8000\<close> otherwise. The
  method has no error of its own: it returns what the write returns, which is success
  unless the transport fails, and success whenever the bus is quiet.
\<close>

theorem updateDSS_writes:
  "updateDSS v =
     writeReg16Bit DSS_CONFIG_MANUAL_EFFECTIVE_SPADS_SELECT
       (word_of_nat (requiredSpads_spec (results v))) v \<and>
   requiredSpads_spec (results v) \<le> 65535 \<and>
   (dssActualEffectiveSpadsSD0 (results v) = 0 \<longrightarrow> requiredSpads_spec (results v) = 0x8000) \<and>
   (fst (updateDSS v) = Inr () \<or> fst (updateDSS v) = Inl TransportError) \<and>
   (script (bus v) = [] \<longrightarrow> fst (updateDSS v) = Inr ())"
proof -
  let ?r = "results v"
  let ?s = "dssActualEffectiveSpadsSD0 ?r"
  let ?t = "(ucast (peakSignalCountRateCrosstalkCorrectedMCPS_SD0 ?r) :: u32)
              + ucast (ambientCountRateMCPS_SD0 ?r)"
  let ?c = "if ?t > 0xFFFF then 0xFFFF else ?t"
  let ?q = "push_bit 16 ?c div ucast ?s"
  let ?total = "min (unat (peakSignalCountRateCrosstalkCorrectedMCPS_SD0 ?r)
                     + unat (ambientCountRateMCPS_SD0 ?r)) 65535"
  have c: "unat ?c = ?total" by (rule dss_total)
  then have q: "unat ?q = (?total * 65536) div unat ?s"
    using dss_per_spad [of ?c ?s] by simp
  have bound: "requiredSpads_spec ?r \<le> 65535"
    by (simp add: requiredSpads_spec_def Let_def)
  have main: "updateDSS v =
     writeReg16Bit DSS_CONFIG_MANUAL_EFFECTIVE_SPADS_SELECT (word_of_nat (requiredSpads_spec ?r)) v"
  proof (cases "?s = 0")
    case True
    then show ?thesis by (simp add: updateDSS_def requiredSpads_spec_def)
  next
    case s: False
    then have s': "unat ?s \<noteq> 0" by (simp add: unat_0_iff)
    show ?thesis
    proof (cases "?q = 0")
      case True
      then have "(?total * 65536) div unat ?s = 0" using q by simp
      then have "requiredSpads_spec ?r = 32768"
        using s' by (simp add: requiredSpads_spec_def Let_def)
      then show ?thesis using s True by (simp add: updateDSS_def Let_def)
    next
      case False
      then have "unat ?q \<noteq> 0" using unat_0_iff [of ?q] by blast
      with q have q0: "(?total * 65536) div unat ?s \<noteq> 0" by simp
      have e1: "unat (ucast (let r = push_bit 16 (ucast TargetRate :: u32) div ?q
                         in if r > 0xFFFF then 0xFFFF else r) :: u16)
            = min ((2560 * 65536) div unat ?q) 65535"
        by (rule dss_required)
      have e2: "requiredSpads_spec ?r
            = min ((2560 * 65536) div ((?total * 65536) div unat ?s)) 65535"
        using s' q0 by (simp add: requiredSpads_spec_def Let_def)
      have "unat (ucast (let r = push_bit 16 (ucast TargetRate :: u32) div ?q
                         in if r > 0xFFFF then 0xFFFF else r) :: u16)
            = requiredSpads_spec ?r"
        by (simp only: e1 e2 q)
      then have "(ucast (let r = push_bit 16 (ucast TargetRate :: u32) div ?q
                         in if r > 0xFFFF then 0xFFFF else r) :: u16)
            = word_of_nat (requiredSpads_spec ?r)"
        by (rule unat_eq_word_of_nat)
      then show ?thesis using s False by (simp add: updateDSS_def Let_def)
    qed
  qed
  have r: "raises (writeReg16Bit DSS_CONFIG_MANUAL_EFFECTIVE_SPADS_SELECT
             (word_of_nat (requiredSpads_spec ?r))) {TransportError}"
    by (rule raises_writeReg16Bit) simp
  have err: "fst (updateDSS v) = Inr () \<or> fst (updateDSS v) = Inl TransportError"
  proof (cases "fst (updateDSS v)")
    case (Inl e)
    then show ?thesis using raisesD [OF r, of v e] main by simp
  next
    case (Inr u)
    then show ?thesis by simp
  qed
  have quiet: "script (bus v) = [] \<longrightarrow> fst (updateDSS v) = Inr ()"
    using main by (simp add: writeReg16Bit_quiet)
  have zero: "dssActualEffectiveSpadsSD0 ?r = 0 \<longrightarrow> requiredSpads_spec ?r = 0x8000"
    by (simp add: requiredSpads_spec_def)
  show ?thesis using main bound zero err quiet by blast
qed

theorem updateDSS_writes_witness:
  "dssActualEffectiveSpadsSD0 (results demoDriver) = 0 \<and>
   requiredSpads_spec (results demoDriver) = 0x8000 \<and>
   script (bus demoDriver) = [] \<and>
   fst (updateDSS demoDriver) = Inr () \<and>
   trace (bus (snd (updateDSS demoDriver))) = [Wr [0x00, 0x54, 0x80, 0x00]] \<and>
   trace (bus (snd (updateDSS (demoDriver\<lparr>results := (results demoDriver)
       \<lparr>dssActualEffectiveSpadsSD0 := 512, ambientCountRateMCPS_SD0 := 24,
        peakSignalCountRateCrosstalkCorrectedMCPS_SD0 := 1000\<rparr>\<rparr>))))
     = [Wr [0x00, 0x54, 0x05, 0x00]]"
proof -
  have a: "dssActualEffectiveSpadsSD0 (results demoDriver) = 0" by (simp add: demoDriver_def)
  have b: "script (bus demoDriver) = []" by (simp add: demoDriver_def)
  have c: "trace (bus (snd (updateDSS demoDriver))) = [Wr [0x00, 0x54, 0x80, 0x00]]" by code_simp
  have d: "fst (updateDSS demoDriver) = Inr ()"
    using updateDSS_writes [of demoDriver] b by blast
  have e: "requiredSpads_spec (results demoDriver) = 0x8000"
    using updateDSS_writes [of demoDriver] a by blast
  have f: "trace (bus (snd (updateDSS (demoDriver\<lparr>results := (results demoDriver)
       \<lparr>dssActualEffectiveSpadsSD0 := 512, ambientCountRateMCPS_SD0 := 24,
        peakSignalCountRateCrosstalkCorrectedMCPS_SD0 := 1000\<rparr>\<rparr>))))
     = [Wr [0x00, 0x54, 0x05, 0x00]]" by code_simp
  from a e b d c f show ?thesis by (intro conjI)
qed

section \<open>Region of interest\<close>

lemma writeReg_Inr_regs:
  assumes "writeReg reg x v = (Inr u, v')"
  shows "regs (bus v') reg = x"
proof -
  obtain f b1 where e: "env_step (bus v) = (f, b1)" by (cases "env_step (bus v)")
  have "f \<noteq> BusError"
    using assms e by (auto simp: writeReg_def thenE_def bindE_def busWrite_unfold)
  then have "v' = v\<lparr>bus := device_write [hiByte reg, loByte reg, x] b1, lastStatus := 0\<rparr>"
    using assms e
    by (cases f) (auto simp: writeReg_def thenE_def bindE_def busWrite_unfold)
  then show ?thesis by (simp add: device_write_def addr16_bytes)
qed

lemma thenE_Inr:
  assumes "thenE m k v = (Inr y, v')"
  obtains u v1 where "m v = (Inr u, v1)" and "k v1 = (Inr y, v')"
proof -
  obtain r v1 where mv: "m v = (r, v1)" by (cases "m v")
  show thesis
  proof (cases r)
    case (Inl e)
    then show ?thesis using assms mv by (simp add: thenE_def bindE_def)
  next
    case (Inr u)
    then show ?thesis using assms mv that by (simp add: thenE_def bindE_def)
  qed
qed


lemma SetROISize_16_16:
  "SetROISize 16 16 =
     thenE (writeReg ROI_CONFIG_USER_ROI_CENTRE_SPAD 199)
           (writeReg ROI_CONFIG_USER_ROI_REQUESTED_GLOBAL_XY_SIZE 0xFF)"
  by (simp add: SetROISize_def)

lemma SetROISize_12_6:
  "SetROISize 12 6 =
     thenE (writeReg ROI_CONFIG_USER_ROI_CENTRE_SPAD 199)
           (writeReg ROI_CONFIG_USER_ROI_REQUESTED_GLOBAL_XY_SIZE 0x5B)"
  by (simp add: SetROISize_def)

text \<open>
  C9. \<^verbatim>\<open>SetROISize(3, 3)\<close> fails with the ROI error and touches neither the driver nor
  the bus. \<^verbatim>\<open>SetROISize(16, 16)\<close> can fail only in the transport; when it succeeds
  (as it does on a quiet bus) its transfers are the write of the default centre SPAD 199
  to the ROI-centre register followed by the write of the size byte. After a successful
  \<^verbatim>\<open>SetROISize(12, 6)\<close>, \<^verbatim>\<open>GetROISize\<close> on a quiet bus returns \<open>(12, 6)\<close>.
\<close>

theorem ROISize_examples:
  "SetROISize 3 3 v = (Inl ROITooSmall, v) \<and>
   (fst (SetROISize 16 16 v) = Inr () \<or> fst (SetROISize 16 16 v) = Inl TransportError) \<and>
   (script (bus v) = [] \<longrightarrow>
      fst (SetROISize 16 16 v) = Inr () \<and>
      regs (bus (snd (SetROISize 16 16 v))) ROI_CONFIG_USER_ROI_CENTRE_SPAD = 199) \<and>
   (SetROISize 16 16 v = (Inr (), v1) \<longrightarrow>
      trace (bus v1) = trace (bus v) @ [Wr [0x00, 0x7F, 199], Wr [0x00, 0x80, 0xFF]]) \<and>
   (SetROISize 12 6 v = (Inr (), v2) \<and> script (bus v2) = [] \<longrightarrow>
      fst (GetROISize v2) = Inr (12, 6))"
proof (intro conjI impI)
  show "SetROISize 3 3 v = (Inl ROITooSmall, v)"
    by (simp add: SetROISize_def failE_def)
next
  have r: "raises (SetROISize 16 16) {TransportError}"
    unfolding SetROISize_16_16 by (intro raises_thenE raises_writeReg) simp_all
  show "fst (SetROISize 16 16 v) = Inr () \<or> fst (SetROISize 16 16 v) = Inl TransportError"
  proof (cases "fst (SetROISize 16 16 v)")
    case (Inl e)
    then show ?thesis using raisesD [OF r, of v e] by simp
  next
    case (Inr u)
    then show ?thesis by simp
  qed
next
  assume "script (bus v) = []"
  then show "fst (SetROISize 16 16 v) = Inr ()"
    by (simp add: SetROISize_16_16 thenE_def bindE_def writeReg_quiet)
next
  assume "script (bus v) = []"
  then show "regs (bus (snd (SetROISize 16 16 v))) ROI_CONFIG_USER_ROI_CENTRE_SPAD = 199"
    by (simp add: SetROISize_16_16 thenE_def bindE_def writeReg_quiet)
next
  assume a: "SetROISize 16 16 v = (Inr (), v1)"
  then obtain u w where w1: "writeReg ROI_CONFIG_USER_ROI_CENTRE_SPAD 199 v = (Inr u, w)"
    and w2: "writeReg ROI_CONFIG_USER_ROI_REQUESTED_GLOBAL_XY_SIZE 0xFF w = (Inr (), v1)"
    unfolding SetROISize_16_16 by (rule thenE_Inr)
  show "trace (bus v1) = trace (bus v) @ [Wr [0x00, 0x7F, 199], Wr [0x00, 0x80, 0xFF]]"
    using writeReg_Inr_trace [OF w1] writeReg_Inr_trace [OF w2]
    by (simp add: hiByte_def loByte_def)
next
  assume a: "SetROISize 12 6 v = (Inr (), v2) \<and> script (bus v2) = []"
  then obtain u w where w2: "writeReg ROI_CONFIG_USER_ROI_REQUESTED_GLOBAL_XY_SIZE 0x5B w = (Inr (), v2)"
    unfolding SetROISize_12_6 by (auto elim: thenE_Inr)
  have "regs (bus v2) ROI_CONFIG_USER_ROI_REQUESTED_GLOBAL_XY_SIZE = 0x5B"
    by (rule writeReg_Inr_regs [OF w2])
  then show "fst (GetROISize v2) = Inr (12, 6)"
    using a by (simp add: GetROISize_def bindE_def readReg_quiet returnE_def)
qed

theorem ROISize_examples_witness:
  "script (bus demoDriver) = [] \<and>
   SetROISize 3 3 demoDriver = (Inl ROITooSmall, demoDriver) \<and>
   fst (SetROISize 16 16 demoDriver) = Inr () \<and>
   regs (bus (snd (SetROISize 16 16 demoDriver))) ROI_CONFIG_USER_ROI_CENTRE_SPAD = 199 \<and>
   trace (bus (snd (SetROISize 16 16 demoDriver))) = [Wr [0x00, 0x7F, 199], Wr [0x00, 0x80, 0xFF]] \<and>
   fst (SetROISize 12 6 demoDriver) = Inr () \<and>
   script (bus (snd (SetROISize 12 6 demoDriver))) = [] \<and>
   fst (GetROISize (snd (SetROISize 12 6 demoDriver))) = Inr (12, 6)"
proof -
  have q: "script (bus demoDriver) = []" by (simp add: demoDriver_def)
  have a: "fst (SetROISize 16 16 demoDriver) = Inr ()" by code_simp
  then have a': "SetROISize 16 16 demoDriver = (Inr (), snd (SetROISize 16 16 demoDriver))"
    by (metis prod.collapse)
  have b: "fst (SetROISize 12 6 demoDriver) = Inr ()" by code_simp
  then have b': "SetROISize 12 6 demoDriver = (Inr (), snd (SetROISize 12 6 demoDriver))"
    by (metis prod.collapse)
  have c: "script (bus (snd (SetROISize 12 6 demoDriver))) = []" by code_simp
  have t: "trace (bus demoDriver) = []" by (simp add: demoDriver_def)
  show ?thesis
    using q a b c t
      ROISize_examples [of demoDriver "snd (SetROISize 16 16 demoDriver)"
        "snd (SetROISize 12 6 demoDriver)"] a' b'
    by simp
qed

section \<open>Starting and stopping continuous ranging\<close>

lemma StartContinuous_unfold:
  "StartContinuous periodMs v =
     thenE (writeReg32Bit SYSTEM_INTERMEASUREMENT_PERIOD (periodMs * ucast (oscCalibrateVal v)))
    (thenE (writeReg SYSTEM_INTERRUPT_CLEAR 0x01)
           (writeReg SYSTEM_MODE_START 0x40)) v"
  by (simp add: StartContinuous_def Let_def)

lemma writeReg32Bit_Inr_trace:
  assumes "writeReg32Bit reg x v = (Inr u, v')"
  shows "trace (bus v') = trace (bus v) @
           [Wr [hiByte reg, loByte reg, ucast (drop_bit 24 x), ucast (drop_bit 16 x),
                ucast (drop_bit 8 x), ucast x]]"
proof -
  from assms obtain u1 v1 where
    w: "busWrite [hiByte reg, loByte reg, ucast (drop_bit 24 x), ucast (drop_bit 16 x),
                  ucast (drop_bit 8 x), ucast x] v = (Inr u1, v1)"
    and k: "v' = v1\<lparr>lastStatus := 0\<rparr>"
    unfolding writeReg32Bit_def by (auto elim: thenE_Inr)
  show ?thesis using busWrite_Inr_trace [OF w] k by simp
qed

lemma writeReg16Bit_Inr_trace:
  assumes "writeReg16Bit reg x v = (Inr u, v')"
  shows "trace (bus v') = trace (bus v) @
           [Wr [hiByte reg, loByte reg, ucast (drop_bit 8 x), ucast x]]"
proof -
  from assms obtain u1 v1 where
    w: "busWrite [hiByte reg, loByte reg, ucast (drop_bit 8 x), ucast x] v = (Inr u1, v1)"
    and k: "v' = v1\<lparr>lastStatus := 0\<rparr>"
    unfolding writeReg16Bit_def by (auto elim: thenE_Inr)
  show ?thesis using busWrite_Inr_trace [OF w] k by simp
qed

lemma writeReg32Bit_quiet:
  "script (bus v) = [] \<Longrightarrow> fst (writeReg32Bit reg x v) = Inr () \<and> script (bus (snd (writeReg32Bit reg x v))) = []"
  by (simp add: writeReg32Bit_def thenE_def bindE_def busWrite_quiet device_write_script)

lemma keeps_StartContinuous:
  "(\<And>v b. f (v\<lparr>bus := b\<rparr>) = f v) \<Longrightarrow> (\<And>v x. f (v\<lparr>lastStatus := x\<rparr>) = f v)
   \<Longrightarrow> keeps f (StartContinuous periodMs)"
proof (rule keepsI)
  fix v :: VL53L1X
  assume a: "\<And>v b. f (v\<lparr>bus := b\<rparr>) = f v" and b: "\<And>v x. f (v\<lparr>lastStatus := x\<rparr>) = f v"
  have "keeps f (thenE (writeReg32Bit SYSTEM_INTERMEASUREMENT_PERIOD (periodMs * ucast (oscCalibrateVal v)))
    (thenE (writeReg SYSTEM_INTERRUPT_CLEAR 0x01) (writeReg SYSTEM_MODE_START 0x40)))"
    by (intro keeps_thenE keeps_writeReg32Bit keeps_writeReg a b)
  then show "f (snd (StartContinuous periodMs v)) = f v"
    by (simp only: StartContinuous_unfold keepsD)
qed

text \<open>
  C6, as the code has it. When \<^verbatim>\<open>StartContinuous(periodMs)\<close> succeeds, its transfers
  are, in this order, the 32-bit write of \<open>periodMs * oscCalibrateVal\<close> (a \<^verbatim>\<open>uint32\<close>
  product, sent big-endian) to the inter-measurement period register, the write of 1 to
  the interrupt-clear register and the write of the timed-mode start command \<open>0x40\<close>;
  on a quiet bus it succeeds. It leaves the calibrated flag as it was, whatever it
  returns: the flag is cleared by \<^verbatim>\<open>StopContinuous\<close>, whenever that gets past its
  first write.
\<close>

theorem StartContinuous_effect:
  "(StartContinuous periodMs v = (Inr (), v') \<longrightarrow>
      trace (bus v') = trace (bus v) @
        [Wr [0x00, 0x6C,
             ucast (drop_bit 24 (periodMs * ucast (oscCalibrateVal v))),
             ucast (drop_bit 16 (periodMs * ucast (oscCalibrateVal v))),
             ucast (drop_bit 8 (periodMs * ucast (oscCalibrateVal v))),
             ucast (periodMs * ucast (oscCalibrateVal v))],
         Wr [0x00, 0x86, 0x01],
         Wr [0x00, 0x87, 0x40]]) \<and>
   (script (bus v) = [] \<longrightarrow> fst (StartContinuous periodMs v) = Inr ()) \<and>
   calibrated (snd (StartContinuous periodMs v)) = calibrated v \<and>
   (fst (StopContinuous v) = Inr () \<longrightarrow> \<not> calibrated (snd (StopContinuous v)))"
proof (intro conjI impI)
  assume "StartContinuous periodMs v = (Inr (), v')"
  then have s: "thenE (writeReg32Bit SYSTEM_INTERMEASUREMENT_PERIOD (periodMs * ucast (oscCalibrateVal v)))
    (thenE (writeReg SYSTEM_INTERRUPT_CLEAR 0x01) (writeReg SYSTEM_MODE_START 0x40)) v = (Inr (), v')"
    by (simp only: StartContinuous_unfold)
  from s obtain u1 v1 where
    w1: "writeReg32Bit SYSTEM_INTERMEASUREMENT_PERIOD (periodMs * ucast (oscCalibrateVal v)) v = (Inr u1, v1)"
    and r1: "thenE (writeReg SYSTEM_INTERRUPT_CLEAR 0x01) (writeReg SYSTEM_MODE_START 0x40) v1 = (Inr (), v')"
    by (rule thenE_Inr)
  from r1 obtain u2 v2 where
    w2: "writeReg SYSTEM_INTERRUPT_CLEAR 0x01 v1 = (Inr u2, v2)"
    and w3: "writeReg SYSTEM_MODE_START 0x40 v2 = (Inr (), v')"
    by (rule thenE_Inr)
  show "trace (bus v') = trace (bus v) @
        [Wr [0x00, 0x6C,
             ucast (drop_bit 24 (periodMs * ucast (oscCalibrateVal v))),
             ucast (drop_bit 16 (periodMs * ucast (oscCalibrateVal v))),
             ucast (drop_bit 8 (periodMs * ucast (oscCalibrateVal v))),
             ucast (periodMs * ucast (oscCalibrateVal v))],
         Wr [0x00, 0x86, 0x01],
         Wr [0x00, 0x87, 0x40]]"
    using writeReg32Bit_Inr_trace [OF w1] writeReg_Inr_trace [OF w2] writeReg_Inr_trace [OF w3]
    by (simp add: hiByte_def loByte_def)
next
  assume q: "script (bus v) = []"
  show "fst (StartContinuous periodMs v) = Inr ()"
    using writeReg32Bit_quiet [OF q, of SYSTEM_INTERMEASUREMENT_PERIOD "periodMs * ucast (oscCalibrateVal v)"]
    by (cases "writeReg32Bit SYSTEM_INTERMEASUREMENT_PERIOD (periodMs * ucast (oscCalibrateVal v)) v")
       (simp add: StartContinuous_unfold thenE_def bindE_def writeReg_quiet)
next
  show "calibrated (snd (StartContinuous periodMs v)) = calibrated v"
    by (rule keepsD [OF keeps_StartContinuous]) simp_all
next
  assume a: "fst (StopContinuous v) = Inr ()"
  obtain r1 v1 where w: "writeReg SYSTEM_MODE_START 0x80 v = (r1, v1)"
    by (cases "writeReg SYSTEM_MODE_START 0x80 v")
  let ?rest = "thenE (\<lambda>v. (if savedVHVInit v \<noteq> 0 then writeReg VHV_CONFIG_INIT (savedVHVInit v)
                  else returnE ()) v)
    (thenE (\<lambda>v. (if savedVHVTimeout v \<noteq> 0
                  then writeReg VHV_CONFIG_TIMEOUT_MACROP_LOOP_BOUND (savedVHVTimeout v)
                  else returnE ()) v)
           (writeReg PHASECAL_CONFIG_OVERRIDE 0x00))"
  have k: "keeps calibrated ?rest"
    by (intro keeps_thenE keepsI) (simp_all add: keepsD [OF keeps_writeReg] returnE_def)
  show "\<not> calibrated (snd (StopContinuous v))"
  proof (cases r1)
    case (Inl e)
    then show ?thesis using a w by (simp add: StopContinuous_def thenE_def bindE_def)
  next
    case (Inr u)
    then have "StopContinuous v = ?rest (v1\<lparr>calibrated := False\<rparr>)"
      using w by (simp add: StopContinuous_def thenE_def bindE_def)
    then show ?thesis using keepsD [OF k, of "v1\<lparr>calibrated := False\<rparr>"] by simp
  qed
qed

theorem StartContinuous_effect_witness:
  "script (bus demoDriver) = [] \<and>
   fst (StartContinuous 55 demoDriver) = Inr () \<and>
   trace (bus (snd (StartContinuous 55 demoDriver)))
     = [Wr [0x00, 0x6C, 0x00, 0x00, 0x37, 0x00], Wr [0x00, 0x86, 0x01], Wr [0x00, 0x87, 0x40]] \<and>
   calibrated (snd (StartContinuous 55 demoDriver)) = calibrated demoDriver \<and>
   fst (StopContinuous demoDriver) = Inr () \<and>
   \<not> calibrated (snd (StopContinuous demoDriver))"
proof -
  have q: "script (bus demoDriver) = []" by (simp add: demoDriver_def)
  have a: "fst (StartContinuous 55 demoDriver) = Inr ()" by code_simp
  then have a': "StartContinuous 55 demoDriver = (Inr (), snd (StartContinuous 55 demoDriver))"
    by (metis prod.collapse)
  have t: "trace (bus demoDriver) = []" by (simp add: demoDriver_def)
  have o: "oscCalibrateVal demoDriver = 0x0100" by (simp add: demoDriver_def)
  have b: "fst (StopContinuous demoDriver) = Inr ()" by code_simp
  have c: "trace (bus (snd (StartContinuous 55 demoDriver)))
     = [Wr [0x00, 0x6C, 0x00, 0x00, 0x37, 0x00], Wr [0x00, 0x86, 0x01], Wr [0x00, 0x87, 0x40]]"
    using StartContinuous_effect [of 55 demoDriver "snd (StartContinuous 55 demoDriver)"] a' t o
    by simp
  have d: "calibrated (snd (StartContinuous 55 demoDriver)) = calibrated demoDriver"
    using StartContinuous_effect [of 55 demoDriver] by blast
  have e: "\<not> calibrated (snd (StopContinuous demoDriver))"
    using StartContinuous_effect [of 55 demoDriver] b by blast
  from q a c d b e show ?thesis by (intro conjI)
qed

text \<open>
  The claim as it was stated fails on a driver that has read a measurement: its
  calibrated flag is set, \<^verbatim>\<open>StartContinuous\<close> succeeds and the flag is still set.
\<close>

theorem StartContinuous_keeps_calibrated_counterexample:
  "(case Read False demoDriver of
      Some (Inr d, v1) \<Rightarrow>
        calibrated v1 \<and> fst (StartContinuous 55 v1) = Inr ()
          \<and> calibrated (snd (StartContinuous 55 v1))
    | _ \<Rightarrow> False)"
  by code_simp

section \<open>The timeout codec\<close>

lemma word_255_mask: "(255 :: 'a :: len word) = mask 8"
  by (simp add: mask_eq_exp_minus_1)

lemma bit_255_int_iff: "bit (255 :: int) n \<longleftrightarrow> n < 8"
proof -
  have "(255 :: int) = mask 8" by (simp add: mask_eq_exp_minus_1)
  then show ?thesis by (simp only: bit_mask_iff) simp
qed

lemma bit_255_iff: "bit (255 :: 'a :: len word) n \<longleftrightarrow> n < 8 \<and> n < LENGTH('a)"
  by (auto simp: word_255_mask bit_mask_iff)

lemma small_word_bits:
  fixes w :: "'a :: len word"
  assumes "w < 256" and "bit w n"
  shows "n < 8"
proof -
  have "w < 2 ^ 8" using assms(1) by simp
  then have "take_bit 8 w = w" by (simp only: take_bit_eq_mask less_mask_eq)
  then have "bit (take_bit 8 w) n" using assms(2) by simp
  then show ?thesis by (simp add: bit_take_bit_iff)
qed

lemma pack_hi: "ms < 256 \<Longrightarrow> drop_bit 8 (push_bit 8 (ms::u16) OR ucast (b::u8)) = ms"
  apply (rule bit_word_eqI)
  apply (auto simp: bit_simps dest: small_word_bits bit_imp_le_length)
  done

lemma pack_lo: "(push_bit 8 (ms::u16) OR ucast (b::u8)) AND 0xFF = ucast b"
  apply (rule bit_word_eqI)
  apply (auto simp: bit_simps bit_255_iff bit_255_int_iff dest: bit_imp_le_length)
  done

lemma lo_cast: "lo < 256 \<Longrightarrow> (ucast (ucast ((lo::u32) AND 0xFF) :: u16) :: u32) = lo"
  apply (rule bit_word_eqI)
  apply (auto simp: bit_simps bit_255_iff bit_255_int_iff dest: small_word_bits)
  done

lemma and_255_small: "(lo :: u32) < 256 \<Longrightarrow> lo AND 0xFF = lo"
  apply (rule bit_word_eqI)
  apply (auto simp: bit_simps bit_255_iff bit_255_int_iff dest: small_word_bits)
  done

lemma decodeTimeout_pack:
  fixes ms :: u16 and lo :: u32
  assumes "ms < 256" and "lo < 256"
  shows "decodeTimeout (push_bit 8 ms OR ucast (lo AND 0xFF)) = push_bit (unat ms) lo + 1"
proof -
  have e: "push_bit 8 ms OR (ucast (lo AND 0xFF) :: u16) = push_bit 8 ms OR ucast (ucast lo :: u8)"
    apply (rule arg_cong [where f = "\<lambda>x. push_bit 8 ms OR x"])
    apply (rule bit_word_eqI)
    apply (auto simp: bit_simps bit_255_iff bit_255_int_iff dest: small_word_bits [OF assms(2)])
    done
  have c: "(ucast (ucast (ucast lo :: u8) :: u16) :: u32) = lo"
    apply (rule bit_word_eqI)
    apply (auto simp: bit_simps dest: small_word_bits [OF assms(2)])
    done
  have hi: "drop_bit 8 (push_bit 8 ms OR (ucast (ucast lo :: u8) :: u16)) = ms"
    by (rule pack_hi [OF assms(1)])
  have lo: "(push_bit 8 ms OR (ucast (ucast lo :: u8) :: u16)) AND 0xFF = ucast (ucast lo :: u8)"
    by (rule pack_lo)
  show ?thesis
    unfolding decodeTimeout_def e hi lo c by (rule refl)
qed

lemma small_word_from_bits:
  fixes w :: u32
  assumes "\<And>n. bit w n \<Longrightarrow> n < 8"
  shows "w < 256"
proof -
  have "take_bit 8 w = w"
    by (rule bit_word_eqI) (auto simp: bit_take_bit_iff dest: assms)
  then have "w = w AND mask 8" by (simp add: take_bit_eq_mask)
  moreover have "w AND mask 8 < 2 ^ 8" by (rule and_mask_less') simp
  ultimately show ?thesis by simp
qed

lemma unat_drop_bit_div: "unat (drop_bit k (w :: u32)) = unat w div 2 ^ k"
  by (subst unat_drop_bit_eq) (simp only: drop_bit_eq_div)

lemma high_bits_iff: "(0 < (ls :: u32) AND 0xFFFFFF00) = (256 \<le> unat ls)"
proof -
  have "(0xFFFFFF00 :: u32) = NOT (mask 8)" by (simp add: mask_eq_exp_minus_1)
  moreover have "ls AND NOT (mask 8) = push_bit 8 (drop_bit 8 ls)"
    by (rule bit_word_eqI) (auto simp: bit_simps)
  ultimately have e: "ls AND 0xFFFFFF00 = push_bit 8 (drop_bit 8 ls)" by simp
  have "unat ls div 256 * 256 \<le> unat ls" by simp
  then have "unat (drop_bit 8 ls) * 2 ^ 8 < 4294967296"
    using unat_u32_bound [of ls] by (simp add: unat_drop_bit_div)
  then have "unat (push_bit 8 (drop_bit 8 ls)) = unat ls div 256 * 256"
    by (simp add: unat_push_bit_32 unat_drop_bit_div)
  then have "(push_bit 8 (drop_bit 8 ls) \<noteq> 0) = (256 \<le> unat ls)"
    using unat_0_iff [of "push_bit 8 (drop_bit 8 ls)"] by (auto simp: div_eq_0_iff)
  then show ?thesis by (simp only: e word_neq_0_conv [symmetric])
qed

lemma encodeLoop_spec:
  "\<exists>k. encodeLoop ls ms = (drop_bit k ls, ms + of_nat k) \<and> unat ls div 2 ^ k < 256
       \<and> (k = 0 \<or> 256 \<le> unat ls div 2 ^ (k - 1))"
proof (induction ls ms rule: encodeLoop.induct)
  case (1 lsByte msByte)
  show ?case
  proof (cases "0 < lsByte AND 0xFFFFFF00")
    case True
    then have big: "256 \<le> unat lsByte" by (simp only: high_bits_iff)
    from "1.IH" [OF True] obtain k where
      r: "encodeLoop (drop_bit 1 lsByte) (msByte + 1) = (drop_bit k (drop_bit 1 lsByte), msByte + 1 + of_nat k)"
      and s: "unat (drop_bit 1 lsByte) div 2 ^ k < 256"
      and m: "k = 0 \<or> 256 \<le> unat (drop_bit 1 lsByte) div 2 ^ (k - 1)"
      by blast
    have h: "unat (drop_bit 1 lsByte) = unat lsByte div 2"
      using unat_drop_bit_div [of 1 lsByte] by simp
    have a: "encodeLoop lsByte msByte = (drop_bit (Suc k) lsByte, msByte + of_nat (Suc k))"
      using True r by (subst encodeLoop.simps) (simp add: drop_bit_drop_bit add.commute add.assoc)
    have b: "unat lsByte div 2 ^ Suc k < 256"
      using s h by (simp add: div_mult2_eq)
    have c: "256 \<le> unat lsByte div 2 ^ (Suc k - 1)"
    proof (cases "k = 0")
      case True
      then show ?thesis using big by simp
    next
      case False
      then obtain j where j: "k = Suc j" by (cases k) auto
      then have "256 \<le> unat lsByte div 2 div 2 ^ j" using m h by simp
      then show ?thesis using j by (simp add: div_mult2_eq)
    qed
    from a b c show ?thesis by blast
  next
    case False
    then have z: "unat lsByte < 256" by (simp add: high_bits_iff)
    have u: "encodeLoop lsByte msByte = (drop_bit 0 lsByte, msByte + of_nat 0)"
      using False by (subst encodeLoop.simps) auto
    show ?thesis using z u by (auto intro!: exI [of _ 0])
  qed
qed

lemma word_of_nat_small_u16: "k \<le> 24 \<Longrightarrow> (word_of_nat k :: u16) < 256 \<and> unat (word_of_nat k :: u16) = k"
proof -
  assume k: "k \<le> 24"
  then have u: "unat (word_of_nat k :: u16) = k" by (simp add: unat_of_nat)
  then have "unat (word_of_nat k :: u16) < unat (256 :: u16)" using k by simp
  then have "(word_of_nat k :: u16) < 256" by (simp only: word_less_nat_alt)
  then show ?thesis using u by simp
qed

text \<open>
  What encoding does to a nonzero timeout \<open>m\<close>: it keeps the top eight significant bits of
  \<open>m - 1\<close>. \<open>k\<close> is the number of bits shifted out, the least one that leaves a byte.
\<close>

lemma decode_encode:
  fixes m :: u32
  assumes "m \<noteq> 0"
  shows "\<exists>k\<le>24. decodeTimeout (encodeTimeout m) = push_bit k (drop_bit k (m - 1)) + 1
           \<and> unat (m - 1) div 2 ^ k < 256
           \<and> (k = 0 \<or> 256 \<le> unat (m - 1) div 2 ^ (k - 1))"
proof -
  obtain k where
    r: "encodeLoop (m - 1) 0 = (drop_bit k (m - 1), 0 + of_nat k)"
    and s: "unat (m - 1) div 2 ^ k < 256"
    and mn: "k = 0 \<or> 256 \<le> unat (m - 1) div 2 ^ (k - 1)"
    using encodeLoop_spec [of "m - 1" 0] by blast
  have k24: "k \<le> 24"
  proof (rule ccontr)
    assume "\<not> k \<le> 24"
    then have k: "25 \<le> k" by simp
    then have "(2 :: nat) ^ 24 \<le> 2 ^ (k - 1)" by (intro power_increasing) simp_all
    then have "unat (m - 1) div 2 ^ (k - 1) \<le> unat (m - 1) div 2 ^ 24"
      by (intro div_le_mono2) simp_all
    moreover have "unat (m - 1) div 2 ^ 24 < 256"
      using unat_u32_bound [of "m - 1"] by simp
    ultimately show False using mn k by simp
  qed
  have lo: "drop_bit k (m - 1) < 256"
  proof -
    have "unat (drop_bit k (m - 1)) < unat (256 :: u32)"
      using s by (simp add: unat_drop_bit_div)
    then show ?thesis by (simp only: word_less_nat_alt)
  qed
  have "encodeTimeout m = push_bit 8 (word_of_nat k) OR ucast (drop_bit k (m - 1) AND 0xFF)"
    using assms r by (simp add: encodeTimeout_def word_neq_0_conv)
  then have "decodeTimeout (encodeTimeout m) = push_bit k (drop_bit k (m - 1)) + 1"
    using decodeTimeout_pack [of "word_of_nat k" "drop_bit k (m - 1)"]
      word_of_nat_small_u16 [OF k24] lo by simp
  then show ?thesis using k24 s mn by blast
qed

lemma shifted_byte_top:
  fixes y :: u32
  assumes "y < 256"
  shows "unat (push_bit M y) div 2 ^ M < 256"
proof -
  have "drop_bit M (push_bit M y) < 256"
  proof (rule small_word_from_bits)
    fix n assume "bit (drop_bit M (push_bit M y)) n"
    then have "bit y n" by (auto simp: bit_simps)
    then show "n < 8" by (rule small_word_bits [OF assms])
  qed
  then have "unat (drop_bit M (push_bit M y)) < unat (256 :: u32)"
    by (simp only: word_less_nat_alt)
  then show ?thesis by (simp add: unat_drop_bit_div)
qed

lemma shifted_byte_low:
  fixes y :: u32
  assumes "k \<le> M"
  shows "push_bit k (drop_bit k (push_bit M y)) = push_bit M y"
  using assms by (intro bit_word_eqI) (auto simp: bit_simps)

lemma shifted_byte_succ:
  fixes y :: u32
  assumes "y < 256"
  shows "push_bit M y + 1 \<noteq> 0"
proof
  assume "push_bit M y + 1 = 0"
  then have e: "push_bit M y = - 1" by (simp only: eq_neg_iff_add_eq_0)
  have "bit (- 1 :: u32) 0" and "bit (- 1 :: u32) 8" by simp_all
  then have b0: "bit (push_bit M y) 0" and b8: "bit (push_bit M y) 8" using e by simp_all
  from b0 have "M = 0" by (auto simp: bit_simps)
  then have "bit y 8" using b8 by simp
  then show False using small_word_bits [OF assms, of 8] by simp
qed

text \<open>
  C1. Every timeout that \<^verbatim>\<open>decodeTimeout\<close> produces from a 16-bit register value is
  recovered exactly by encoding and decoding again.
\<close>

theorem decode_encode_roundtrip:
  "decodeTimeout (encodeTimeout (decodeTimeout r)) = decodeTimeout r"
proof -
  define y :: u32 where "y = ucast (r AND 0xFF)"
  define M where "M = unat (drop_bit 8 r)"
  define x where "x = push_bit M y"
  have d: "decodeTimeout r = x + 1" by (simp add: decodeTimeout_def x_def y_def M_def)
  have y: "y < 256"
  proof (rule small_word_from_bits)
    fix n assume "bit y n"
    then show "n < 8" unfolding y_def by (auto simp: bit_simps bit_255_iff bit_255_int_iff)
  qed
  have nz: "x + 1 \<noteq> 0" unfolding x_def by (rule shifted_byte_succ [OF y])
  from decode_encode [OF nz] obtain k where
    e: "decodeTimeout (encodeTimeout (x + 1)) = push_bit k (drop_bit k x) + 1"
    and mn: "k = 0 \<or> 256 \<le> unat x div 2 ^ (k - 1)"
    by auto
  have "k \<le> M"
  proof (rule ccontr)
    assume "\<not> k \<le> M"
    then have k: "M \<le> k - 1" and k0: "k \<noteq> 0" by simp_all
    then have "(2 :: nat) ^ M \<le> 2 ^ (k - 1)" by (intro power_increasing) simp_all
    then have "unat x div 2 ^ (k - 1) \<le> unat x div 2 ^ M"
      by (intro div_le_mono2) simp_all
    moreover have "unat x div 2 ^ M < 256" unfolding x_def by (rule shifted_byte_top [OF y])
    ultimately show False using mn k0 by simp
  qed
  then have "push_bit k (drop_bit k x) = x" unfolding x_def by (rule shifted_byte_low)
  then show ?thesis using e d by simp
qed

section \<open>Setting the distance mode twice\<close>

text \<open>
  C4, on the code. The driver is configured for the short range with a budget of 50 ms
  (\<^verbatim>\<open>SetMeasurementTimingBudget(50)\<close> on the short-range VCSEL periods, oscillator
  frequency \<open>0xBCCC\<close>); the budget then reads back as 49 ms. \<^verbatim>\<open>SetDistanceMode(Short)\<close>
  succeeds and leaves a budget of 48 ms; called again it leaves 47 ms, and the range
  timeout it writes for phase A is \<open>0x01DE\<close> where the first call wrote \<open>0x01E3\<close>.
  The budget saved at the start of a call is the truncated read-back of the one applied
  before, so each of these two calls lowers it by a millisecond.
\<close>

theorem SetDistanceMode_twice_drifts:
  "(let v0 = snd (SetMeasurementTimingBudget 50 demoDriver);
        v1 = snd (SetDistanceMode Short v0);
        v2 = snd (SetDistanceMode Short v1)
    in fst (SetMeasurementTimingBudget 50 demoDriver) = Inr () \<and>
       fst (GetMeasurementTimingBudget v0) = Inr 49 \<and>
       fst (SetDistanceMode Short v0) = Inr () \<and>
       fst (GetMeasurementTimingBudget v1) = Inr 48 \<and>
       fst (SetDistanceMode Short v1) = Inr () \<and>
       fst (GetMeasurementTimingBudget v2) = Inr 47 \<and>
       writesTo RANGE_CONFIG_TIMEOUT_MACROP_A (drop (length (trace (bus v0))) (trace (bus v1)))
         = [[0x01, 0xE3]] \<and>
       writesTo RANGE_CONFIG_TIMEOUT_MACROP_A (drop (length (trace (bus v1))) (trace (bus v2)))
         = [[0x01, 0xDE]])"
  by code_simp

section \<open>Calibration within a ranging session\<close>

subsection \<open>What can change the calibration state\<close>


































subsection \<open>The calibration step and the stop\<close>
















subsection \<open>A session from start to stop\<close>







end
